theory Spec2Isabelle
  imports Main "HOL-Library.Sublist"
begin

section \<open>Strings\<close>

text \<open>
  Text is a list of 8-bit characters holding the UTF-8 encoding of the JavaScript string
  (the operations used by \<^verbatim>\<open>server.js\<close> -- \<^verbatim>\<open>startsWith\<close>,
  \<^verbatim>\<open>replace\<close>, \<^verbatim>\<open>trim\<close>, \<^verbatim>\<open>parseFloat\<close>,
  \<^verbatim>\<open>includes\<close>, \<^verbatim>\<open>===\<close> -- give the same answers on
  the encoding as on the code units). The currency literal of the source file is the
  three characters U+00E2 U+201A U+00AC (the euro sign read in another encoding), seven
  bytes in UTF-8; the same literal stands in the filter of the amount loops, in the
  suffix of the monthly expenses and in the defaults of the field table.
\<close>

definition euro :: string where
  "euro = [CHR 0xC3, CHR 0xA2, CHR 0xE2, CHR 0x80, CHR 0x9A, CHR 0xC2, CHR 0xAC]"

text \<open>
  The white space removed by \<^verbatim>\<open>String.prototype.trim\<close> and skipped by
  \<^verbatim>\<open>parseFloat\<close>: TAB, LF, VT, FF, CR, SP, U+00A0, U+1680, U+2000..U+200A,
  U+2028, U+2029, U+202F, U+205F, U+3000 and U+FEFF, each as its UTF-8 bytes.
\<close>

definition ws_seqs :: "string list" where
  "ws_seqs =
    [[CHR 0x09], [CHR 0x0A], [CHR 0x0B], [CHR 0x0C], [CHR 0x0D], [CHR 0x20],
     [CHR 0xC2, CHR 0xA0],
     [CHR 0xE1, CHR 0x9A, CHR 0x80],
     [CHR 0xE2, CHR 0x80, CHR 0x80], [CHR 0xE2, CHR 0x80, CHR 0x81],
     [CHR 0xE2, CHR 0x80, CHR 0x82], [CHR 0xE2, CHR 0x80, CHR 0x83],
     [CHR 0xE2, CHR 0x80, CHR 0x84], [CHR 0xE2, CHR 0x80, CHR 0x85],
     [CHR 0xE2, CHR 0x80, CHR 0x86], [CHR 0xE2, CHR 0x80, CHR 0x87],
     [CHR 0xE2, CHR 0x80, CHR 0x88], [CHR 0xE2, CHR 0x80, CHR 0x89],
     [CHR 0xE2, CHR 0x80, CHR 0x8A],
     [CHR 0xE2, CHR 0x80, CHR 0xA8], [CHR 0xE2, CHR 0x80, CHR 0xA9],
     [CHR 0xE2, CHR 0x80, CHR 0xAF],
     [CHR 0xE2, CHR 0x81, CHR 0x9F],
     [CHR 0xE3, CHR 0x80, CHR 0x80],
     [CHR 0xEF, CHR 0xBB, CHR 0xBF]]"

text \<open>The number of bytes of the white-space character some string starts with, or 0.\<close>

definition ws_len :: "string list \<Rightarrow> string \<Rightarrow> nat" where
  "ws_len seqs s = (case find (\<lambda>w. prefix w s) seqs of None \<Rightarrow> 0 | Some w \<Rightarrow> length w)"

text \<open>
  Removing leading white space; the fuel is the length of the string, one unit for
  every character removed, so it never runs out.
\<close>

fun strip_ws :: "string list \<Rightarrow> nat \<Rightarrow> string \<Rightarrow> string" where
  "strip_ws seqs 0 s = s"
| "strip_ws seqs (Suc k) s =
     (if ws_len seqs s = 0 then s else strip_ws seqs k (drop (ws_len seqs s) s))"

definition trimStart :: "string \<Rightarrow> string" where
  "trimStart s = strip_ws ws_seqs (length s) s"

definition trimEnd :: "string \<Rightarrow> string" where
  "trimEnd s = rev (strip_ws (map rev ws_seqs) (length s) (rev s))"

definition trim :: "string \<Rightarrow> string" where
  "trim s = trimEnd (trimStart s)"

definition startsWith :: "string \<Rightarrow> string \<Rightarrow> bool" where
  "startsWith s p = prefix p s"

text \<open>\<^verbatim>\<open>s.includes(p)\<close>: \<open>p\<close> occurs in \<open>s\<close> as a contiguous run.\<close>

fun str_includes :: "string \<Rightarrow> string \<Rightarrow> bool" where
  "str_includes [] p = (p = [])"
| "str_includes (c # s) p = (prefix p (c # s) \<or> str_includes s p)"

text \<open>\<^verbatim>\<open>s.replace(p, "")\<close> with a string pattern: the first occurrence goes.\<close>

fun remove_first :: "string \<Rightarrow> string \<Rightarrow> string" where
  "remove_first p [] = []"
| "remove_first p (c # s) =
     (if prefix p (c # s) then drop (length p) (c # s) else c # remove_first p s)"

text \<open>\<^verbatim>\<open>s.replace(/^\.+/, "")\<close>: the dots the string starts with go.\<close>

fun strip_leading_dots :: "string \<Rightarrow> string" where
  "strip_leading_dots [] = []"
| "strip_leading_dots (c # s) = (if c = CHR ''.'' then strip_leading_dots s else c # s)"

definition is_digit :: "char \<Rightarrow> bool" where
  "is_digit c = (c \<in> set ''0123456789'')"

text \<open>
  \<^verbatim>\<open>isNaN(parseFloat(s))\<close>. \<^verbatim>\<open>parseFloat\<close> skips leading white space and
  reads the longest prefix that is a decimal literal: an optional sign, then
  \<^verbatim>\<open>Infinity\<close>, or digits, or a dot and a digit. It is NaN exactly when there is no
  such prefix.
\<close>

definition unsigned_start :: "string \<Rightarrow> bool" where
  "unsigned_start s =
     (startsWith s ''Infinity'' \<or>
      (case s of
         [] \<Rightarrow> False
       | c # r \<Rightarrow> is_digit c \<or> (c = CHR ''.'' \<and> (case r of [] \<Rightarrow> False | d # _ \<Rightarrow> is_digit d))))"

definition isNaN_parseFloat :: "string \<Rightarrow> bool" where
  "isNaN_parseFloat s =
     (case trimStart s of
        [] \<Rightarrow> True
      | c # r \<Rightarrow> \<not> (if c = CHR ''+'' \<or> c = CHR ''-'' then unsigned_start r
                 else unsigned_start (c # r)))"

text \<open>
  The filter of the amount loops:
  \<^verbatim>\<open>text && !isNaN(parseFloat(text)) && text !== euro\<close>, with the currency
  literal for \<open>euro\<close>.
\<close>

definition numeric_text :: "string \<Rightarrow> bool" where
  "numeric_text t = (t \<noteq> [] \<and> \<not> isNaN_parseFloat t \<and> t \<noteq> euro)"

section \<open>The card-digit format\<close>

text \<open>
  \<^verbatim>\<open>
  let formattedDigits = newCardDigits;
  if (!formattedDigits.startsWith("...")) {
    formattedDigits = "..." + formattedDigits.replace(/^\.+/, "");
  }
  \<close>
  The same four lines stand in \<^verbatim>\<open>updateCardDigitsGlobally\<close> (twice),
  \<^verbatim>\<open>updateDirectDebitsValues\<close> and \<^verbatim>\<open>updateTransfersValues\<close>.
\<close>

definition formatCardDigits :: "string \<Rightarrow> string" where
  "formatCardDigits newCardDigits =
     (if \<not> startsWith newCardDigits ''...''
      then ''...'' @ strip_leading_dots newCardDigits
      else newCardDigits)"

section \<open>Parsed documents\<close>

text \<open>
  What \<^verbatim>\<open>cheerio.load\<close> returns: a tree of elements (tag, id, classes, children)
  and text nodes. The document is its root element. An element is named by its path, the
  child indices from the root.
\<close>

datatype node = Text string | Elem string string "string list" "node list"

type_synonym path = "nat list"

fun is_elem :: "node \<Rightarrow> bool" where
  "is_elem (Text t) = False"
| "is_elem (Elem tg i cs ks) = True"

fun textContent :: "node \<Rightarrow> string" where
  "textContent (Text t) = t"
| "textContent (Elem tg i cs ks) = concat (map textContent ks)"

fun node_at :: "node \<Rightarrow> path \<Rightarrow> node option" where
  "node_at n [] = Some n"
| "node_at (Text t) (j # p) = None"
| "node_at (Elem tg i cs ks) (j # p) = (if j < length ks then node_at (ks ! j) p else None)"

text \<open>An element that is still part of the document.\<close>

definition attached :: "node \<Rightarrow> path \<Rightarrow> bool" where
  "attached d p = (case node_at d p of Some n \<Rightarrow> is_elem n | None \<Rightarrow> False)"

text \<open>\<^verbatim>\<open>$(elem).text()\<close> of one element.\<close>

definition text_of :: "node \<Rightarrow> path \<Rightarrow> string" where
  "text_of d p = (case node_at d p of Some n \<Rightarrow> textContent n | None \<Rightarrow> [])"

text \<open>
  \<^verbatim>\<open>$(elem).text(v)\<close> on one element: its children are replaced by one text node.
  The elements that were below it leave the document; a later write to one of them (a
  path that no longer leads to an element) changes nothing in the document.
\<close>

fun set_text_at :: "path \<Rightarrow> string \<Rightarrow> node \<Rightarrow> node" where
  "set_text_at p v (Text t) = Text t"
| "set_text_at [] v (Elem tg i cs ks) = Elem tg i cs [Text v]"
| "set_text_at (j # p) v (Elem tg i cs ks) =
     (if j < length ks then Elem tg i cs (ks[j := set_text_at p v (ks ! j)])
      else Elem tg i cs ks)"

text \<open>
  \<^verbatim>\<open>.text(x)\<close> where \<open>x\<close> is a property of the request that may be missing:
  \<^verbatim>\<open>text(undefined)\<close> is the getter and writes nothing.
\<close>

fun set_text_opt :: "path \<Rightarrow> string option \<Rightarrow> node \<Rightarrow> node" where
  "set_text_opt p None d = d"
| "set_text_opt p (Some v) d = set_text_at p v d"

subsection \<open>Selectors\<close>

text \<open>
  The selectors of \<^verbatim>\<open>server.js\<close> are compounds of tag, class, id and
  \<^verbatim>\<open>:last-child\<close> tests joined by the descendant combinator.
  \<^verbatim>\<open>:contains\<close> (used once, on a single compound) is a filter on the selection.
  An element is seen by a selector as its tag, id, classes and whether it is the last
  element child of its parent.
\<close>

datatype simple = Tag string | Cls string | Ident string | LastChild

type_synonym compound = "simple list"
type_synonym selector = "compound list"
type_synonym entry = "string \<times> string \<times> string list \<times> bool"

fun m_simple :: "simple \<Rightarrow> entry \<Rightarrow> bool" where
  "m_simple (Tag t) (tg, i, cs, l) = (tg = t)"
| "m_simple (Cls c) (tg, i, cs, l) = (c \<in> set cs)"
| "m_simple (Ident x) (tg, i, cs, l) = (i = x)"
| "m_simple LastChild (tg, i, cs, l) = l"

definition m_compound :: "compound \<Rightarrow> entry \<Rightarrow> bool" where
  "m_compound c e = list_all (\<lambda>s. m_simple s e) c"

text \<open>The compounds left of the last one, nearest first, against the ancestors, nearest first.\<close>

fun m_ancestors :: "compound list \<Rightarrow> entry list \<Rightarrow> bool" where
  "m_ancestors [] anc = True"
| "m_ancestors (c # cs) [] = False"
| "m_ancestors (c # cs) (a # anc) =
     (if m_compound c a then m_ancestors cs anc else m_ancestors (c # cs) anc)"

definition matches :: "selector \<Rightarrow> entry list \<Rightarrow> entry \<Rightarrow> bool" where
  "matches sel anc e =
     (case rev sel of [] \<Rightarrow> False | c # cs \<Rightarrow> m_compound c e \<and> m_ancestors cs anc)"

text \<open>The matching elements below a node, in document order.\<close>

fun sel_node :: "selector \<Rightarrow> entry list \<Rightarrow> bool \<Rightarrow> node \<Rightarrow> path list"
and sel_kids :: "selector \<Rightarrow> entry list \<Rightarrow> nat \<Rightarrow> node list \<Rightarrow> path list" where
  "sel_node sel anc l (Text t) = []"
| "sel_node sel anc l (Elem tg i cs ks) =
     (if matches sel anc (tg, i, cs, l) then [[]] else []) @
     sel_kids sel ((tg, i, cs, l) # anc) 0 ks"
| "sel_kids sel anc j [] = []"
| "sel_kids sel anc j (k # ks) =
     map ((#) j) (sel_node sel anc (\<not> list_ex is_elem ks) k) @ sel_kids sel anc (Suc j) ks"

text \<open>\<^verbatim>\<open>$(selector)\<close>.\<close>

definition select :: "selector \<Rightarrow> node \<Rightarrow> path list" where
  "select sel d = sel_node sel [] True d"

text \<open>\<^verbatim>\<open>$('sel:contains("phrase")')\<close>.\<close>

definition select_contains :: "selector \<Rightarrow> string \<Rightarrow> node \<Rightarrow> path list" where
  "select_contains sel phrase d = filter (\<lambda>p. str_includes (text_of d p) phrase) (select sel d)"

text \<open>
  \<^verbatim>\<open>.closest(sel)\<close>: for each element of the selection the nearest of itself and its
  ancestors that matches, each kept once, in the order found.
\<close>

definition closest1 :: "selector \<Rightarrow> node \<Rightarrow> path \<Rightarrow> path option" where
  "closest1 sel d p = find (\<lambda>q. q \<in> set (select sel d)) (rev (prefixes p))"

definition closest :: "selector \<Rightarrow> node \<Rightarrow> path list \<Rightarrow> path list" where
  "closest sel d ps =
     foldl (\<lambda>acc p. case closest1 sel d p of
                      None \<Rightarrow> acc
                    | Some q \<Rightarrow> if q \<in> set acc then acc else acc @ [q]) [] ps"

text \<open>Whether the element at a path is the last element child of its parent.\<close>

fun last_child :: "node \<Rightarrow> path \<Rightarrow> bool" where
  "last_child n [] = True"
| "last_child (Text t) (j # p) = False"
| "last_child (Elem tg i cs ks) [j] = (\<not> list_ex is_elem (drop (Suc j) ks))"
| "last_child (Elem tg i cs ks) (j # k # p) =
     (if j < length ks then last_child (ks ! j) (k # p) else False)"

text \<open>
  \<^verbatim>\<open>.find(sel)\<close>: the elements below an element of the selection (the context)
  that match the selector, in document order. The selector is matched inside the
  context: the compounds left of the last one are looked for among the ancestors up to
  the context, the context itself included.
\<close>

definition scoped :: "selector \<Rightarrow> node \<Rightarrow> path \<Rightarrow> path list" where
  "scoped sel d c =
     (case node_at d c of
        Some (Elem tg i cs ks) \<Rightarrow>
          map ((@) c) (sel_kids sel [(tg, i, cs, last_child d c)] 0 ks)
      | _ \<Rightarrow> [])"

definition find_in :: "selector \<Rightarrow> node \<Rightarrow> path list \<Rightarrow> path list" where
  "find_in sel d ctxs =
     filter (\<lambda>e. list_ex (\<lambda>c. e \<in> set (scoped sel d c)) ctxs) (select [[]] d)"

text \<open>\<^verbatim>\<open>.text()\<close> of a selection: the texts of its elements, concatenated.\<close>

definition sel_text :: "node \<Rightarrow> path list \<Rightarrow> string" where
  "sel_text d ps = concat (map (text_of d) ps)"

text \<open>\<^verbatim>\<open>.first()\<close>.\<close>

definition first :: "path list \<Rightarrow> path list" where
  "first ps = take 1 ps"

text \<open>\<^verbatim>\<open>.text(v)\<close> on a selection: every element of it is written, in order.\<close>

definition set_text_all :: "path list \<Rightarrow> string \<Rightarrow> node \<Rightarrow> node" where
  "set_text_all ps v d = fold (\<lambda>p. set_text_at p v) ps d"

definition set_text_all_opt :: "path list \<Rightarrow> string option \<Rightarrow> node \<Rightarrow> node" where
  "set_text_all_opt ps v d = fold (\<lambda>p. set_text_opt p v) ps d"

subsection \<open>The loops over a selection\<close>

text \<open>
  \<^verbatim>\<open>
  elements.each((i, elem) => {
    const text = $(elem).text().trim();
    if (P(text)) { value = text; return false; }
  });
  \<close>
\<close>

fun each_read_first :: "(string \<Rightarrow> bool) \<Rightarrow> node \<Rightarrow> path list \<Rightarrow> string \<Rightarrow> string" where
  "each_read_first P d [] val = val"
| "each_read_first P d (p # ps) val =
     (if P (trim (text_of d p)) then trim (text_of d p) else each_read_first P d ps val)"

text \<open>
  \<^verbatim>\<open>
  elements.each((i, elem) => {
    const text = $(elem).text().trim();
    if (P(text)) { $(elem).text(v); updated = true; return false; }
  });
  \<close>
  Nothing is written before the loop stops, so every element it reads is in the document.
\<close>

fun each_write_first :: "(string \<Rightarrow> bool) \<Rightarrow> string option \<Rightarrow> path list \<Rightarrow> node \<Rightarrow> bool \<times> node" where
  "each_write_first P v [] d = (False, d)"
| "each_write_first P v (p # ps) d =
     (if P (trim (text_of d p)) then (True, set_text_opt p v d) else each_write_first P v ps d)"

text \<open>
  The same loop without \<^verbatim>\<open>return false\<close>. An element below one already written
  has left the document: whatever the loop does to it does not reach the document (and
  the flag is already set).
\<close>

fun each_write_all :: "(string \<Rightarrow> bool) \<Rightarrow> string \<Rightarrow> path list \<Rightarrow> bool \<times> node \<Rightarrow> bool \<times> node" where
  "each_write_all P v [] (u, d) = (u, d)"
| "each_write_all P v (p # ps) (u, d) =
     (if attached d p \<and> P (trim (text_of d p))
      then each_write_all P v ps (True, set_text_at p v d)
      else each_write_all P v ps (u, d))"

section \<open>The tables of \<^verbatim>\<open>server.js\<close>\<close>

text \<open>
  A property read \<^verbatim>\<open>obj[key]\<close> on an object literal finds the object's own
  properties and those inherited from \<^verbatim>\<open>Object.prototype\<close> (all of them truthy).
\<close>

datatype 'a property = Own 'a | Inherited | Undefined

definition object_prototype_keys :: "string list" where
  "object_prototype_keys =
     [''constructor'', ''__defineGetter__'', ''__defineSetter__'', ''hasOwnProperty'',
      ''__lookupGetter__'', ''__lookupSetter__'', ''isPrototypeOf'', ''propertyIsEnumerable'',
      ''toString'', ''valueOf'', ''__proto__'', ''toLocaleString'']"

definition get_property :: "(string \<times> 'a) list \<Rightarrow> string \<Rightarrow> 'a property" where
  "get_property obj k =
     (case map_of obj k of
        Some v \<Rightarrow> Own v
      | None \<Rightarrow> if k \<in> set object_prototype_keys then Inherited else Undefined)"

definition HTML_FILES :: "(string \<times> string) list" where
  "HTML_FILES =
     [(''openbank'', ''Openbank.html''),
      (''directDebits'', ''Openbank-direct-debits.html''),
      (''cards'', ''Openbank-cards.html''),
      (''transfers'', ''Openbank-transfers.html'')]"

text \<open>
  \<^verbatim>\<open>FIELD_CONFIGS\<close>: per file type the fields with their \<^verbatim>\<open>defaultValue\<close>
  (the \<^verbatim>\<open>selector\<close> and \<^verbatim>\<open>context\<close> strings are read only by the generic
  loop of \<^verbatim>\<open>extractBalanceValues\<close>, which no entry of the table reaches).
\<close>

definition FIELD_CONFIGS :: "(string \<times> (string \<times> string) list) list" where
  "FIELD_CONFIGS =
     [(''openbank'',
        [(''accountTotalBalance'', ''430.26''),
         (''individualAccountBalance'', ''0.00''),
         (''totalSavingsBalance'', ''0.00''),
         (''monthlyExpenses'', ''0.00 '' @ euro),
         (''savingsInvestmentsTotal'', ''0.00''),
         (''totalLending'', ''0.00''),
         (''cardLastDigits'', ''...2150''),
         (''avatarName'', ''Alfonso'')]),
      (''directDebits'',
        [(''accountsBalanceAmount'', ''0.00''),
         (''cardLastDigits'', ''...2150''),
         (''availableAmount'', ''0.00''),
         (''availableCurrency'', euro),
         (''avatarName'', ''Alfonso'')]),
      (''cards'',
        [(''cardLastDigits'', ''1704''),
         (''avatarName'', ''Alfonso'')]),
      (''transfers'',
        [(''cardLastDigits'', ''...2150''),
         (''avatarName'', ''Alfonso'')])]"

text \<open>The selectors written out in the functions.\<close>

definition sel_account_total :: selector where
  "sel_account_total =
     [[Cls ''glb-position-financial-card-header-col__amount''], [Tag ''span''], [Tag ''span'']]"

definition sel_individual_account :: selector where
  "sel_individual_account =
     [[Cls ''glb-position-financial-card-item__amount''], [Tag ''span''], [Tag ''span'']]"

definition sel_total_balance_amount :: selector where
  "sel_total_balance_amount = [[Cls ''global-position-total-balance__amount''], [Tag ''span'']]"

definition sel_monthly_expenses :: selector where
  "sel_monthly_expenses = [[Cls ''expenses-summary-box__header__expenses--total'']]"

definition sel_statement :: selector where
  "sel_statement = [[Cls ''glb-all-position-summary__statement'']]"

definition sel_totalbalance_section :: selector where
  "sel_totalbalance_section = [[Cls ''glb-all-position-summary__totalbalance-section'']]"

definition sel_avatar :: selector where
  "sel_avatar = [[Cls ''avatar-component__alias''], [Tag ''span''], [Tag ''span'']]"

definition sel_card_title :: selector where
  "sel_card_title = [[Cls ''glb-position-financial-card-item__title--small'']]"

definition sel_accounts_balance :: selector where
  "sel_accounts_balance = [[Cls ''accounts-balance__amount'']]"

definition sel_box_iban :: selector where
  "sel_box_iban = [[Cls ''accounts-box-header__iban'']]"

definition sel_available_amount :: selector where
  "sel_available_amount = [[Ident ''lblAvailableAmount0'']]"

definition sel_available_currency :: selector where
  "sel_available_currency = [[Ident ''lblAvailableCurrency0'']]"

definition sel_card_number :: selector where
  "sel_card_number =
     [[Cls ''card__card-number--small'', Cls ''card__card-number--show'',
       Cls ''card__card-number--only-number''],
      [Tag ''span'', LastChild]]"

definition sel_dropdown_iban :: selector where
  "sel_dropdown_iban = [[Cls ''dropdown-accounts__account-description-iban'']]"

definition sel_dropdown_amount :: selector where
  "sel_dropdown_amount = [[Cls ''dropdown-accounts__account-description-amount''], [Tag ''span'']]"

section \<open>Extraction\<close>

type_synonym balances = "string \<rightharpoonup> string"

text \<open>\<^verbatim>\<open>x || dflt\<close> on strings.\<close>

definition or_default :: "string \<Rightarrow> string \<Rightarrow> string" where
  "or_default x dflt = (if x \<noteq> [] then x else dflt)"

text \<open>The avatar name, read the same way by all four extractors.\<close>

definition extractAvatarName :: "node \<Rightarrow> string" where
  "extractAvatarName d =
     (let avatarNameElement = first (select sel_avatar d) in
      if avatarNameElement \<noteq> []
      then (let name = trim (sel_text d avatarNameElement) in
            if name \<noteq> [] then name else ''Alfonso'')
      else ''Alfonso'')"

text \<open>
  A total through a phrase: the statement elements containing the phrase, their closest
  total-balance section, the first amount span found in it.
\<close>

definition section_amount :: "string \<Rightarrow> node \<Rightarrow> path list option" where
  "section_amount phrase d =
     (let section = closest sel_totalbalance_section d (select_contains sel_statement phrase d) in
      if section \<noteq> [] then Some (first (find_in sel_total_balance_amount d section)) else None)"

definition extractSectionTotal :: "string \<Rightarrow> node \<Rightarrow> string" where
  "extractSectionTotal phrase d =
     (case section_amount phrase d of
        None \<Rightarrow> ''0.00''
      | Some amount \<Rightarrow>
          (let amountText = trim (sel_text d amount) in
           if numeric_text amountText then amountText else ''0.00''))"

definition extractMonthlyExpenses :: "node \<Rightarrow> string" where
  "extractMonthlyExpenses d =
     (let monthlyExpensesElements = select sel_monthly_expenses d in
      if monthlyExpensesElements \<noteq> []
      then (let text = remove_first ('' '' @ euro) (trim (sel_text d (first monthlyExpensesElements))) in
            if text \<noteq> [] \<and> \<not> isNaN_parseFloat text then text else ''0.00'')
      else ''0.00'')"

definition extractOpenbankCardDigits :: "node \<Rightarrow> string" where
  "extractOpenbankCardDigits d =
     (let cardDigitsElement = select sel_card_title d in
      if cardDigitsElement \<noteq> []
      then (let digits = trim (sel_text d cardDigitsElement) in
            if digits \<noteq> [] then digits else ''...2150'')
      else ''...2150'')"

definition extractOpenbankValues :: "node \<Rightarrow> balances" where
  "extractOpenbankValues d =
     map_of
       [(''accountTotalBalance'',
           each_read_first numeric_text d (select sel_account_total d) ''430.26''),
        (''individualAccountBalance'',
           each_read_first numeric_text d (select sel_individual_account d) ''0.00''),
        (''totalSavingsBalance'',
           each_read_first numeric_text d (select sel_total_balance_amount d) ''0.00''),
        (''monthlyExpenses'', extractMonthlyExpenses d),
        (''savingsInvestmentsTotal'', extractSectionTotal ''Total savings and investments'' d),
        (''totalLending'', extractSectionTotal ''Total Lending'' d),
        (''avatarName'', extractAvatarName d),
        (''cardLastDigits'', extractOpenbankCardDigits d)]"

definition extractDirectDebitsValues :: "node \<Rightarrow> balances" where
  "extractDirectDebitsValues d =
     map_of
       [(''accountsBalanceAmount'',
           or_default (trim (sel_text d (select sel_accounts_balance d))) ''0.00''),
        (''cardLastDigits'', or_default (trim (sel_text d (select sel_box_iban d))) ''...2150''),
        (''availableAmount'',
           or_default (trim (sel_text d (select sel_available_amount d))) ''0.00''),
        (''availableCurrency'',
           or_default (trim (sel_text d (select sel_available_currency d))) euro),
        (''avatarName'', extractAvatarName d)]"

definition extractCardsValues :: "node \<Rightarrow> balances" where
  "extractCardsValues d =
     map_of
       [(''cardLastDigits'', or_default (trim (sel_text d (select sel_card_number d))) ''1704''),
        (''avatarName'', extractAvatarName d)]"

definition extractTransfersValues :: "node \<Rightarrow> balances" where
  "extractTransfersValues d =
     map_of
       [(''cardLastDigits'',
           or_default (trim (sel_text d (select sel_dropdown_iban d))) ''...2150''),
        (''accountBalance'',
           each_read_first numeric_text d (select sel_dropdown_amount d) ''0.00''),
        (''avatarName'', extractAvatarName d)]"

datatype js_error = JsError string | JsReferenceError string | JsTypeError string
  | JsSystemError string

text \<open>
  \<^verbatim>\<open>extractBalanceValues\<close>. The selector operations raise nothing, so the
  \<^verbatim>\<open>catch\<close> blocks of the extractors are never entered. A key that
  \<^verbatim>\<open>FIELD_CONFIGS\<close> only inherits passes the first test and falls through to the
  generic loop, which runs over the (zero) own enumerable properties of what was found.
\<close>

definition extractBalanceValues :: "node \<Rightarrow> string \<Rightarrow> js_error + balances" where
  "extractBalanceValues d fileType =
     (case get_property FIELD_CONFIGS fileType of
        Undefined \<Rightarrow> Inl (JsError (''Unknown file type: '' @ fileType))
      | Inherited \<Rightarrow> Inr Map.empty
      | Own fieldConfig \<Rightarrow>
          if fileType = ''openbank'' then Inr (extractOpenbankValues d)
          else if fileType = ''directDebits'' then Inr (extractDirectDebitsValues d)
          else if fileType = ''cards'' then Inr (extractCardsValues d)
          else if fileType = ''transfers'' then Inr (extractTransfersValues d)
          else Inr Map.empty)"

section \<open>The files\<close>

text \<open>
  The project directory: the HTML files by name (a missing name is a file that cannot be
  read), the names \<^verbatim>\<open>fs.writeFile\<close> fails on, and what
  \<^verbatim>\<open>glob.sync("**/*.{html,htm}", ...)\<close> lists. The text of a file is held as
  the document that \<^verbatim>\<open>$.html()\<close> serialises into it.
\<close>

record fs =
  files :: "string \<rightharpoonup> node"
  unwritable :: "string set"
  htmlFiles :: "string list"

text \<open>The path of a file as the messages of Node show it, between single quotes.\<close>

definition quoted :: "string \<Rightarrow> string" where
  "quoted fileName = [CHR 0x27] @ fileName @ [CHR 0x27]"

definition readFile :: "fs \<Rightarrow> string \<Rightarrow> js_error + node" where
  "readFile st fileName =
     (case files st fileName of
        None \<Rightarrow>
          Inl (JsSystemError (''ENOENT: no such file or directory, open '' @ quoted fileName))
      | Some htmlContent \<Rightarrow> Inr htmlContent)"

definition writeFile :: "fs \<Rightarrow> string \<Rightarrow> node \<Rightarrow> js_error + fs" where
  "writeFile st fileName d =
     (if fileName \<in> unwritable st
      then Inl (JsSystemError (''EACCES: permission denied, open '' @ quoted fileName))
      else Inr (st\<lparr>files := (files st)(fileName \<mapsto> d)\<rparr>))"

text \<open>
  \<^verbatim>\<open>cheerio.load(htmlContent)\<close>: the text is parsed again. The pages are made of
  ordinary elements (the located ones are \<^verbatim>\<open>span\<close>, \<^verbatim>\<open>div\<close> and
  \<^verbatim>\<open>p\<close>; no text is raw text as in \<^verbatim>\<open>script\<close>, in foreign content
  or moved out of a table), and no two text nodes are neighbours. For such a document the
  parser gives back the document that was serialised, up to its text: the input stream
  turns CR LF and a single CR into LF, the tree builder ignores NUL, and a text node that
  is left empty is no node.
\<close>

fun html_text :: "string \<Rightarrow> string" where
  "html_text [] = []"
| "html_text [c] = (if c = CHR 0x0D then [CHR 0x0A] else if c = CHR 0x00 then [] else [c])"
| "html_text (c # d # s) =
     (if c = CHR 0x0D \<and> d = CHR 0x0A then CHR 0x0A # html_text s
      else if c = CHR 0x0D then CHR 0x0A # html_text (d # s)
      else if c = CHR 0x00 then html_text (d # s)
      else c # html_text (d # s))"

fun cheerio_load :: "node \<Rightarrow> node" where
  "cheerio_load (Text t) = Text (html_text t)"
| "cheerio_load (Elem tg i cs ks) =
     Elem tg i cs (filter (\<lambda>k. k \<noteq> Text []) (map cheerio_load ks))"

text \<open>
  \<^verbatim>\<open>loadHTMLFile\<close>. \<^verbatim>\<open>fileName\<close> is declared with \<^verbatim>\<open>const\<close> inside
  the \<^verbatim>\<open>try\<close> block and read in the \<^verbatim>\<open>catch\<close> block, where it is not in
  scope: whatever was thrown in the \<^verbatim>\<open>try\<close> block, the function throws the
  reference error of that read.
\<close>

definition loadHTMLFile_try :: "fs \<Rightarrow> string \<Rightarrow> js_error + node" where
  "loadHTMLFile_try st fileType =
     (case get_property HTML_FILES fileType of
        Undefined \<Rightarrow> Inl (JsError (''Unknown file type: '' @ fileType))
      | Inherited \<Rightarrow> Inl (JsTypeError ''The path argument must be of type string'')
      | Own fileName \<Rightarrow>
          (case readFile st fileName of
             Inl e \<Rightarrow> Inl e
           | Inr htmlContent \<Rightarrow> Inr (cheerio_load htmlContent)))"

definition loadHTMLFile :: "fs \<Rightarrow> string \<Rightarrow> js_error + node" where
  "loadHTMLFile st fileType =
     (case loadHTMLFile_try st fileType of
        Inl error \<Rightarrow> Inl (JsReferenceError ''fileName is not defined'')
      | Inr d \<Rightarrow> Inr d)"

definition saveHTMLFile_try :: "fs \<Rightarrow> node \<Rightarrow> string \<Rightarrow> js_error + fs" where
  "saveHTMLFile_try st d fileType =
     (case get_property HTML_FILES fileType of
        Undefined \<Rightarrow> Inl (JsError (''Unknown file type: '' @ fileType))
      | Inherited \<Rightarrow> Inl (JsTypeError ''The path argument must be of type string'')
      | Own fileName \<Rightarrow> writeFile st fileName d)"

fun message :: "js_error \<Rightarrow> string" where
  "message (JsError m) = m"
| "message (JsReferenceError m) = m"
| "message (JsTypeError m) = m"
| "message (JsSystemError m) = m"

definition saveHTMLFile :: "fs \<Rightarrow> node \<Rightarrow> string \<Rightarrow> js_error + fs" where
  "saveHTMLFile st d fileType =
     (case saveHTMLFile_try st d fileType of
        Inl error \<Rightarrow> Inl (JsError (''Failed to save '' @ fileType @ '' file: '' @ message error))
      | Inr st' \<Rightarrow> Inr st')"

section \<open>The global updates\<close>

text \<open>
  What a global update prints: the two counters and, per file, one line.
\<close>

datatype outcome = Updated | Skipped | Failed

record run =
  store :: fs
  updatedCount :: nat
  skippedCount :: nat
  console :: "(string \<times> outcome) list"

definition start :: "fs \<Rightarrow> run" where
  "start st = \<lparr>store = st, updatedCount = 0, skippedCount = 0, console = []\<rparr>"

text \<open>\<^verbatim>\<open>updateCardDigitsGlobally\<close>: the body of the inner \<^verbatim>\<open>try\<close>, for one file.\<close>

definition cardDigitsFile :: "string \<Rightarrow> string \<Rightarrow> fs \<Rightarrow> js_error + bool \<times> fs" where
  "cardDigitsFile newCardDigits fileType st =
     (case loadHTMLFile st fileType of
        Inl e \<Rightarrow> Inl e
      | Inr d \<Rightarrow>
          (let (updated, d') =
             (if fileType = ''openbank'' then
                (let cardDigitsElement = select sel_card_title d in
                 if cardDigitsElement \<noteq> []
                 then (True, set_text_all cardDigitsElement (formatCardDigits newCardDigits) d)
                 else (False, d))
              else if fileType = ''transfers'' then
                (let cardDigitsElement = select sel_dropdown_iban d in
                 if cardDigitsElement \<noteq> []
                 then (True, set_text_all cardDigitsElement (formatCardDigits newCardDigits) d)
                 else (False, d))
              else (False, d))
           in if updated
              then (case saveHTMLFile st d' fileType of
                      Inl e \<Rightarrow> Inl e
                    | Inr st' \<Rightarrow> Inr (True, st'))
              else Inr (False, st)))"

text \<open>The loop over \<^verbatim>\<open>filesToUpdate\<close>; an error of one file is printed and not counted.\<close>

fun cardDigitsLoop :: "string \<Rightarrow> string list \<Rightarrow> run \<Rightarrow> run" where
  "cardDigitsLoop v [] r = r"
| "cardDigitsLoop v (fileType # rest) r =
     cardDigitsLoop v rest
       (case cardDigitsFile v fileType (store r) of
          Inl fileError \<Rightarrow> r\<lparr>console := console r @ [(fileType, Failed)]\<rparr>
        | Inr (updated, st') \<Rightarrow>
            if updated
            then r\<lparr>store := st', updatedCount := Suc (updatedCount r),
                   console := console r @ [(fileType, Updated)]\<rparr>
            else r\<lparr>skippedCount := Suc (skippedCount r),
                   console := console r @ [(fileType, Skipped)]\<rparr>)"

definition updateCardDigitsGlobally :: "string \<Rightarrow> fs \<Rightarrow> js_error + run" where
  "updateCardDigitsGlobally newCardDigits st =
     Inr (cardDigitsLoop newCardDigits [''openbank'', ''transfers''] (start st))"

text \<open>\<^verbatim>\<open>updateAccountBalanceGlobally\<close>: the body of the inner \<^verbatim>\<open>try\<close>.\<close>

definition accountBalanceFile :: "string \<Rightarrow> string \<Rightarrow> fs \<Rightarrow> js_error + bool \<times> fs" where
  "accountBalanceFile newAccountBalance fileType st =
     (case loadHTMLFile st fileType of
        Inl e \<Rightarrow> Inl e
      | Inr d \<Rightarrow>
          (let (updated, d') =
             (if fileType = ''openbank'' then
                each_write_first numeric_text (Some newAccountBalance)
                  (select sel_account_total d) d
              else if fileType = ''transfers'' then
                each_write_all numeric_text newAccountBalance
                  (select sel_dropdown_amount d) (False, d)
              else (False, d))
           in if updated
              then (case saveHTMLFile st d' fileType of
                      Inl e \<Rightarrow> Inl e
                    | Inr st' \<Rightarrow> Inr (True, st'))
              else Inr (False, st)))"

text \<open>Here an error of one file counts as skipped.\<close>

fun accountBalanceLoop :: "string \<Rightarrow> string list \<Rightarrow> run \<Rightarrow> run" where
  "accountBalanceLoop v [] r = r"
| "accountBalanceLoop v (fileType # rest) r =
     accountBalanceLoop v rest
       (case accountBalanceFile v fileType (store r) of
          Inl fileError \<Rightarrow>
            r\<lparr>skippedCount := Suc (skippedCount r), console := console r @ [(fileType, Failed)]\<rparr>
        | Inr (updated, st') \<Rightarrow>
            if updated
            then r\<lparr>store := st', updatedCount := Suc (updatedCount r),
                   console := console r @ [(fileType, Updated)]\<rparr>
            else r\<lparr>skippedCount := Suc (skippedCount r),
                   console := console r @ [(fileType, Skipped)]\<rparr>)"

definition updateAccountBalanceGlobally :: "string \<Rightarrow> fs \<Rightarrow> js_error + run" where
  "updateAccountBalanceGlobally newAccountBalance st =
     Inr (accountBalanceLoop newAccountBalance [''openbank'', ''transfers''] (start st))"

text \<open>
  \<^verbatim>\<open>updateAvatarNameGlobally\<close>: the body of the inner \<^verbatim>\<open>try\<close>, for one of
  the listed files. The test of the loop is
  \<^verbatim>\<open>oldName && oldName !== newAvatarName\<close>.
\<close>

definition name_differs :: "string \<Rightarrow> string \<Rightarrow> bool" where
  "name_differs newAvatarName oldName = (oldName \<noteq> [] \<and> oldName \<noteq> newAvatarName)"

definition avatarNameFile :: "string \<Rightarrow> string \<Rightarrow> fs \<Rightarrow> js_error + bool \<times> fs" where
  "avatarNameFile newAvatarName filePath st =
     (case readFile st filePath of
        Inl e \<Rightarrow> Inl e
      | Inr htmlContent \<Rightarrow>
          (let d = cheerio_load htmlContent;
               avatarNameElements = select sel_avatar d in
           if avatarNameElements \<noteq> []
           then (let (elementUpdated, d') =
                   each_write_all (name_differs newAvatarName) newAvatarName
                     avatarNameElements (False, d)
                 in if elementUpdated
                    then (case writeFile st filePath d' of
                            Inl e \<Rightarrow> Inl e
                          | Inr st' \<Rightarrow> Inr (True, st'))
                    else Inr (False, st))
           else Inr (False, st)))"

fun avatarNameLoop :: "string \<Rightarrow> string list \<Rightarrow> run \<Rightarrow> run" where
  "avatarNameLoop v [] r = r"
| "avatarNameLoop v (filePath # rest) r =
     avatarNameLoop v rest
       (case avatarNameFile v filePath (store r) of
          Inl fileError \<Rightarrow>
            r\<lparr>skippedCount := Suc (skippedCount r), console := console r @ [(filePath, Failed)]\<rparr>
        | Inr (updated, st') \<Rightarrow>
            if updated
            then r\<lparr>store := st', updatedCount := Suc (updatedCount r),
                   console := console r @ [(filePath, Updated)]\<rparr>
            else r\<lparr>skippedCount := Suc (skippedCount r),
                   console := console r @ [(filePath, Skipped)]\<rparr>)"

definition updateAvatarNameGlobally :: "string \<Rightarrow> fs \<Rightarrow> js_error + run" where
  "updateAvatarNameGlobally newAvatarName st =
     Inr (avatarNameLoop newAvatarName (htmlFiles st) (start st))"

section \<open>The updates of one document\<close>

text \<open>\<^verbatim>\<open>newBalances.x && newBalances.x !== ""\<close>: the field is there and not empty.\<close>

definition given :: "balances \<Rightarrow> string \<Rightarrow> bool" where
  "given newBalances k = (case newBalances k of None \<Rightarrow> False | Some v \<Rightarrow> v \<noteq> [])"

text \<open>\<^verbatim>\<open>`${x}`\<close> of a property that may be missing.\<close>

definition template :: "string option \<Rightarrow> string" where
  "template x = (case x of None \<Rightarrow> ''undefined'' | Some v \<Rightarrow> v)"

text \<open>
  The two totals found through a phrase: when the section is there, the first amount span
  in it is written (no test of its text, no test that the field is in the request).
\<close>

definition updateSectionTotal :: "string \<Rightarrow> string option \<Rightarrow> node \<Rightarrow> node" where
  "updateSectionTotal phrase v d =
     (case section_amount phrase d of
        None \<Rightarrow> d
      | Some amount \<Rightarrow> set_text_all_opt amount v d)"

text \<open>
  \<^verbatim>\<open>updateOpenbankValues\<close>: six steps, one after the other on the same document.
  None of them asks whether its field is in the request.
\<close>

definition updateOpenbankValues :: "node \<Rightarrow> balances \<Rightarrow> node" where
  "updateOpenbankValues d newBalances =
     (let d1 = snd (each_write_first numeric_text (newBalances ''accountTotalBalance'')
                      (select sel_account_total d) d);
          d2 = snd (each_write_first numeric_text (newBalances ''individualAccountBalance'')
                      (select sel_individual_account d1) d1);
          d3 = snd (each_write_first numeric_text (newBalances ''totalSavingsBalance'')
                      (select sel_total_balance_amount d2) d2);
          d4 = set_text_all (select sel_monthly_expenses d3)
                 (template (newBalances ''monthlyExpenses'') @ '' '' @ euro) d3;
          d5 = updateSectionTotal ''Total savings and investments''
                 (newBalances ''savingsInvestmentsTotal'') d4;
          d6 = updateSectionTotal ''Total Lending'' (newBalances ''totalLending'') d5
      in d6)"

text \<open>
  \<^verbatim>\<open>
  if (newBalances.x && newBalances.x !== "") {
    const element = $(selector);
    if (element.length > 0) { element.text(f(newBalances.x)); }
  }
  \<close>
\<close>

definition update_field :: "balances \<Rightarrow> string \<Rightarrow> selector \<Rightarrow> (string \<Rightarrow> string) \<Rightarrow> node \<Rightarrow> node" where
  "update_field newBalances k sel f d =
     (if given newBalances k
      then (let element = select sel d in
            if element \<noteq> [] then set_text_all element (f (the (newBalances k))) d else d)
      else d)"

definition updateDirectDebitsValues :: "node \<Rightarrow> balances \<Rightarrow> node" where
  "updateDirectDebitsValues d newBalances =
     (let d1 = update_field newBalances ''accountsBalanceAmount'' sel_accounts_balance id d;
          d2 = update_field newBalances ''cardLastDigits'' sel_box_iban formatCardDigits d1;
          d3 = update_field newBalances ''availableAmount'' sel_available_amount id d2;
          d4 = update_field newBalances ''availableCurrency'' sel_available_currency id d3
      in d4)"

definition updateCardsValues :: "node \<Rightarrow> balances \<Rightarrow> node" where
  "updateCardsValues d newBalances =
     update_field newBalances ''cardLastDigits'' sel_card_number id d"

definition updateTransfersValues :: "node \<Rightarrow> balances \<Rightarrow> node" where
  "updateTransfersValues d newBalances =
     (let d1 = (if given newBalances ''accountBalance''
                then snd (each_write_all numeric_text (the (newBalances ''accountBalance''))
                            (select sel_dropdown_amount d) (False, d))
                else d);
          d2 = update_field newBalances ''cardLastDigits'' sel_dropdown_iban formatCardDigits d1
      in d2)"

section \<open>\<^verbatim>\<open>updateBalanceValues\<close> and the two routes\<close>

text \<open>
  The request's fields as they reach the functions of the requested document:
  \<^verbatim>\<open>cardLastDigits\<close> is taken out after its global update (file types
  \<^verbatim>\<open>openbank\<close> and \<^verbatim>\<open>transfers\<close>), \<^verbatim>\<open>avatarName\<close> after its
  global update; \<^verbatim>\<open>accountTotalBalance\<close> stays.
\<close>

definition cardDigitsGlobal :: "balances \<Rightarrow> string \<Rightarrow> bool" where
  "cardDigitsGlobal newBalances fileType =
     (given newBalances ''cardLastDigits'' \<and> (fileType = ''openbank'' \<or> fileType = ''transfers''))"

definition accountBalanceGlobal :: "balances \<Rightarrow> string \<Rightarrow> bool" where
  "accountBalanceGlobal newBalances fileType =
     (given newBalances ''accountTotalBalance'' \<and> fileType = ''openbank'')"

definition otherBalances :: "balances \<Rightarrow> string \<Rightarrow> balances" where
  "otherBalances newBalances fileType =
     (let nb1 = (if cardDigitsGlobal newBalances fileType
                 then newBalances(''cardLastDigits'' := None) else newBalances);
          nb2 = (if given nb1 ''avatarName'' then nb1(''avatarName'' := None) else nb1)
      in nb2)"

text \<open>The three global updates, in the order of the source, each on the files the last left.\<close>

definition globalUpdates :: "fs \<Rightarrow> balances \<Rightarrow> string \<Rightarrow> js_error + fs" where
  "globalUpdates st newBalances fileType =
     (case (if cardDigitsGlobal newBalances fileType
            then map_sum id store (updateCardDigitsGlobally (the (newBalances ''cardLastDigits'')) st)
            else Inr st) of
        Inl e \<Rightarrow> Inl e
      | Inr st1 \<Rightarrow>
     (case (if accountBalanceGlobal newBalances fileType
            then map_sum id store
                   (updateAccountBalanceGlobally (the (newBalances ''accountTotalBalance'')) st1)
            else Inr st1) of
        Inl e \<Rightarrow> Inl e
      | Inr st2 \<Rightarrow>
          (if given newBalances ''avatarName''
           then map_sum id store (updateAvatarNameGlobally (the (newBalances ''avatarName'')) st2)
           else Inr st2)))"

text \<open>
  \<^verbatim>\<open>updateBalanceValues($, newBalances, fileType)\<close>: the files after the global
  updates, and the document \<^verbatim>\<open>$\<close> of the caller after the local update, or the
  error thrown.
\<close>

definition updateBalanceValues :: "fs \<Rightarrow> node \<Rightarrow> balances \<Rightarrow> string \<Rightarrow> fs \<times> (js_error + node)" where
  "updateBalanceValues st d newBalances fileType =
     (case globalUpdates st newBalances fileType of
        Inl e \<Rightarrow> (st, Inl e)
      | Inr st' \<Rightarrow>
          (let newBalances' = otherBalances newBalances fileType in
           if fileType = ''openbank'' then (st', Inr (updateOpenbankValues d newBalances'))
           else if fileType = ''directDebits'' then (st', Inr (updateDirectDebitsValues d newBalances'))
           else if fileType = ''cards'' then (st', Inr (updateCardsValues d newBalances'))
           else if fileType = ''transfers'' then (st', Inr (updateTransfersValues d newBalances'))
           else (st', Inl (JsError (''Unknown file type: '' @ fileType)))))"

text \<open>
  \<^verbatim>\<open>GET /api/current-balances\<close>: the balances sent, or the error of the 500
  response. The file type is \<^verbatim>\<open>req.query.fileType || "openbank"\<close>: a missing
  or empty parameter (the empty string here) stands for the main document.
\<close>

definition getCurrentBalances :: "fs \<Rightarrow> string \<Rightarrow> js_error + balances" where
  "getCurrentBalances st queryFileType =
     (let fileType = (if queryFileType \<noteq> [] then queryFileType else ''openbank'') in
      case loadHTMLFile st fileType of
        Inl e \<Rightarrow> Inl e
      | Inr d \<Rightarrow> extractBalanceValues d fileType)"

text \<open>
  \<^verbatim>\<open>POST /api/update-balances\<close>: the files afterwards and, when the request fails, the
  error of the 500 response. The document is loaded before the global updates run and
  saved after them.
\<close>

definition postUpdateBalances :: "fs \<Rightarrow> balances \<Rightarrow> string \<Rightarrow> fs \<times> js_error option" where
  "postUpdateBalances st balances fileType =
     (case loadHTMLFile st fileType of
        Inl e \<Rightarrow> (st, Some e)
      | Inr d \<Rightarrow>
          (case updateBalanceValues st d balances fileType of
             (st', Inl e) \<Rightarrow> (st', Some e)
           | (st', Inr d') \<Rightarrow>
               (case saveHTMLFile st' d' fileType of
                  Inl e \<Rightarrow> (st', Some e)
                | Inr st'' \<Rightarrow> (st'', None))))"

section \<open>Notions used in the statements\<close>

text \<open>The element at a path holds exactly one text node with the given text.\<close>

definition written :: "node \<Rightarrow> path \<Rightarrow> string \<Rightarrow> bool" where
  "written d p v = (\<exists>tg i cs. node_at d p = Some (Elem tg i cs [Text v]))"


section \<open>Sample documents\<close>

definition sample_debits :: node where
  "sample_debits =
     Elem ''html'' [] []
       [Elem ''body'' [] []
          [Elem ''span'' [] [''accounts-box-header__iban''] [Text ''...2150''],
           Elem ''span'' [] [''accounts-balance__amount''] [Text ''10.00'']]]"

definition sample_transfers :: node where
  "sample_transfers =
     Elem ''html'' [] []
       [Elem ''body'' [] []
          [Elem ''div'' [] [''dropdown-accounts__account-description-iban''] [Text ''...2150''],
           Elem ''div'' [] [''dropdown-accounts__account-description-amount'']
             [Elem ''span'' [] [] [Text ''430.26''], Elem ''span'' [] [] [Text ''EUR'']],
           Elem ''div'' [] [''dropdown-accounts__account-description-amount'']
             [Elem ''span'' [] [] [Text ''12.00'']]]]"

definition empty_doc :: node where
  "empty_doc = Elem ''html'' [] [] [Elem ''head'' [] [] [], Elem ''body'' [] [] []]"

definition sample_openbank :: node where
  "sample_openbank =
     Elem ''html'' [] []
       [Elem ''body'' [] []
          [Elem ''div'' [] [''glb-position-financial-card-header-col__amount'']
             [Elem ''span'' [] [] [Elem ''span'' [] [] [Text ''430.26''],
                                   Elem ''span'' [] [] [Text ''EUR'']]],
           Elem ''div'' [] [''glb-position-financial-card-header-col__amount'']
             [Elem ''span'' [] [] [Elem ''span'' [] [] [Text ''99.00'']]],
           Elem ''p'' [] [''glb-position-financial-card-item__title--small''] [Text ''...2150''],
           Elem ''div'' [] [''avatar-component__alias'']
             [Elem ''span'' [] [] [Elem ''span'' [] [] [Text ''Alfonso'']]],
           Elem ''span'' [] [''expenses-summary-box__header__expenses--total'']
             [Text (''12.00 '' @ euro)]]]"

definition sample_cards :: node where
  "sample_cards =
     Elem ''html'' [] []
       [Elem ''body'' [] []
          [Elem ''div'' [] [''card__card-number--small'', ''card__card-number--show'',
                            ''card__card-number--only-number'']
             [Elem ''span'' [] [] [Text ''****''], Elem ''span'' [] [] [Text ''1704'']]]]"

definition sample_fs :: fs where
  "sample_fs =
     \<lparr>files = [''Openbank.html'' \<mapsto> sample_openbank,
               ''Openbank-direct-debits.html'' \<mapsto> sample_debits,
               ''Openbank-cards.html'' \<mapsto> sample_cards,
               ''Openbank-transfers.html'' \<mapsto> sample_transfers],
      unwritable = {},
      htmlFiles = [''Openbank.html'', ''Openbank-direct-debits.html'', ''Openbank-cards.html'',
                   ''Openbank-transfers.html'']\<rparr>"

text \<open>What a request reads back for one field, and the default the table registers for it.\<close>

definition extracted :: "node \<Rightarrow> string \<Rightarrow> string \<Rightarrow> string option" where
  "extracted d fileType k =
     (case extractBalanceValues d fileType of Inl e \<Rightarrow> None | Inr bal \<Rightarrow> bal k)"

definition registered_defaults :: "string \<Rightarrow> balances" where
  "registered_defaults fileType =
     (case map_of FIELD_CONFIGS fileType of None \<Rightarrow> Map.empty | Some fieldConfig \<Rightarrow> map_of fieldConfig)"

text \<open>No rule of the file type's extractor locates a node in the document.\<close>

definition rule_selectors :: "string \<Rightarrow> selector list" where
  "rule_selectors fileType =
     (if fileType = ''openbank''
      then [sel_account_total, sel_individual_account, sel_total_balance_amount,
            sel_monthly_expenses, sel_avatar, sel_card_title]
      else if fileType = ''directDebits''
      then [sel_accounts_balance, sel_box_iban, sel_available_amount, sel_available_currency,
            sel_avatar]
      else if fileType = ''cards'' then [sel_card_number, sel_avatar]
      else if fileType = ''transfers'' then [sel_dropdown_iban, sel_dropdown_amount, sel_avatar]
      else [])"

definition locates_nothing :: "string \<Rightarrow> node \<Rightarrow> bool" where
  "locates_nothing fileType d =
     (list_all (\<lambda>sel. select sel d = []) (rule_selectors fileType) \<and>
      (fileType = ''openbank'' \<longrightarrow>
         select_contains sel_statement ''Total savings and investments'' d = [] \<and>
         select_contains sel_statement ''Total Lending'' d = []))"




text \<open>No element of one selection is at, above or below an element of the other.\<close>

definition apart :: "path list \<Rightarrow> path list \<Rightarrow> bool" where
  "apart ps qs = list_all (\<lambda>p. list_all (\<lambda>q. \<not> prefix p q \<and> \<not> prefix q p) qs) ps"

section \<open>The writes of an update\<close>


definition apply_writes :: "(path \<times> string) list \<Rightarrow> node \<Rightarrow> node" where
  "apply_writes ws d = fold (\<lambda>(p, v). set_text_at p v) ws d"












section \<open>More sample documents\<close>

text \<open>
  A main page with every kind of amount: two total balances, an account balance, the
  monthly expenses, a total of savings, and the two sections found through their
  statement.
\<close>

definition sample_main :: node where
  "sample_main =
     Elem ''html'' [] []
       [Elem ''body'' [] []
          [Elem ''div'' [] [''glb-position-financial-card-header-col__amount'']
             [Elem ''span'' [] [] [Elem ''span'' [] [] [Text ''430.26''],
                                   Elem ''span'' [] [] [Text ''EUR'']]],
           Elem ''div'' [] [''glb-position-financial-card-header-col__amount'']
             [Elem ''span'' [] [] [Elem ''span'' [] [] [Text ''99.00'']]],
           Elem ''div'' [] [''glb-position-financial-card-item__amount'']
             [Elem ''span'' [] [] [Elem ''span'' [] [] [Text ''12.50'']]],
           Elem ''span'' [] [''expenses-summary-box__header__expenses--total'']
             [Text (''12.00 '' @ euro)],
           Elem ''div'' [] [''global-position-total-balance__amount'']
             [Elem ''span'' [] [] [Text ''100.00'']],
           Elem ''div'' [] [''glb-all-position-summary__totalbalance-section'']
             [Elem ''p'' [] [''glb-all-position-summary__statement'']
                [Text ''Total savings and investments''],
              Elem ''div'' [] [''global-position-total-balance__amount'']
                [Elem ''span'' [] [] [Text ''5.00''], Elem ''span'' [] [] [Text ''EUR'']]],
           Elem ''div'' [] [''glb-all-position-summary__totalbalance-section'']
             [Elem ''p'' [] [''glb-all-position-summary__statement''] [Text ''Total Lending''],
              Elem ''div'' [] [''global-position-total-balance__amount'']
                [Elem ''span'' [] [] [Text ''7.00'']]]]]"

definition sample_site :: fs where
  "sample_site = sample_fs\<lparr>files := (files sample_fs)(''Openbank.html'' \<mapsto> sample_main)\<rparr>"



section \<open>Properties of the strings\<close>

lemma strip_leading_dots_dropWhile:
  "strip_leading_dots s = dropWhile (\<lambda>c. c = CHR ''.'') s"
  by (induction s) auto

lemma strip_leading_dots_no_dot:
  "\<not> startsWith (strip_leading_dots s) ''.''"
  by (induction s) (auto simp: startsWith_def)

section \<open>Writing at a path\<close>

lemma node_at_set_same:
  "node_at d p = Some (Elem tg i cs ks) \<Longrightarrow> node_at (set_text_at p v d) p = Some (Elem tg i cs [Text v])"
proof (induction p arbitrary: d)
  case Nil
  then show ?case by simp
next
  case (Cons j p)
  then show ?case by (cases d) (auto split: if_splits)
qed

lemma node_at_set_other:
  "\<not> prefix q p \<Longrightarrow> \<not> prefix p q \<Longrightarrow> node_at (set_text_at q v d) p = node_at d p"
proof (induction q arbitrary: d p)
  case Nil
  then show ?case by simp
next
  case (Cons j q)
  show ?case
  proof (cases d)
    case (Text t)
    then show ?thesis by simp
  next
    case (Elem tg i cs ks)
    from Cons.prems obtain k p' where p: "p = k # p'" by (cases p) auto
    show ?thesis
    proof (cases "k = j")
      case True
      with Cons.prems p have "\<not> prefix q p'" "\<not> prefix p' q" by auto
      from Cons.IH[OF this] Elem p True show ?thesis by auto
    next
      case False
      with Elem p show ?thesis by auto
    qed
  qed
qed

lemma set_text_at_detached:
  "node_at d p = Some (Elem tg i cs [Text v]) \<Longrightarrow> strict_prefix p q \<Longrightarrow> set_text_at q w d = d"
proof (induction p arbitrary: d q)
  case Nil
  then obtain k q' where "q = k # q'" by (cases q) auto
  with Nil show ?case by (cases q') (auto simp: )
next
  case (Cons j p)
  from Cons.prems obtain q' where q: "q = j # q'" "strict_prefix p q'"
    by (cases q) (auto simp: strict_prefix_def)
  from Cons.prems(1) obtain tg' i' cs' ks where d: "d = Elem tg' i' cs' ks" "j < length ks"
    "node_at (ks ! j) p = Some (Elem tg i cs [Text v])"
    by (cases d) (auto split: if_splits)
  from Cons.IH[OF d(3) q(2)] d q show ?case by simp
qed

lemma attached_set_text_at:
  "attached d p \<Longrightarrow> \<not> strict_prefix q p \<Longrightarrow> attached (set_text_at q v d) p"
proof (induction q arbitrary: d p)
  case Nil
  then show ?case by (cases d; cases p) (auto simp: attached_def)
next
  case (Cons j q)
  show ?case
  proof (cases d)
    case (Text t)
    with Cons.prems show ?thesis by simp
  next
    case (Elem tg i cs ks)
    show ?thesis
    proof (cases p)
      case Nil
      with Elem show ?thesis by (auto simp: attached_def)
    next
      case (Cons k p')
      show ?thesis
      proof (cases "k = j")
        case True
        with Cons.prems Cons Elem have "attached (ks ! j) p'" "\<not> strict_prefix q p'" "j < length ks"
          by (auto simp: attached_def split: if_splits)
        from Cons.IH[OF this(1,2)] this(3) Elem Cons True show ?thesis
          by (auto simp: attached_def)
      next
        case False
        with Cons.prems Cons Elem show ?thesis by (auto simp: attached_def split: if_splits)
      qed
    qed
  qed
qed

lemma written_set_same:
  assumes "attached d p"
  shows "written (set_text_at p v d) p v"
proof -
  from assms obtain tg i cs ks where "node_at d p = Some (Elem tg i cs ks)"
    by (auto simp: attached_def split: option.splits elim: is_elem.elims)
  from node_at_set_same[OF this] show ?thesis by (auto simp: written_def)
qed

lemma written_set_other:
  assumes "written d p v" "\<not> prefix q p"
  shows "written (set_text_at q w d) p v"
proof (cases "prefix p q")
  case True
  with assms(2) have "strict_prefix p q" by (auto simp: strict_prefix_def)
  with assms(1) obtain tg i cs where n: "node_at d p = Some (Elem tg i cs [Text v])"
    by (auto simp: written_def)
  from set_text_at_detached[OF n \<open>strict_prefix p q\<close>] assms(1) show ?thesis by simp
next
  case False
  with assms show ?thesis unfolding written_def by (simp add: node_at_set_other)
qed

lemma written_text_of: "written d p v \<Longrightarrow> text_of d p = v"
  by (auto simp: written_def text_of_def)

lemma written_attached: "written d p v \<Longrightarrow> attached d p"
  by (auto simp: written_def attached_def)

lemma written_set_text_all:
  "written d p v \<Longrightarrow> \<forall>q\<in>set ps. \<not> strict_prefix q p \<Longrightarrow> written (set_text_all ps v d) p v"
proof (induction ps arbitrary: d)
  case Nil
  then show ?case by (simp add: set_text_all_def)
next
  case (Cons q ps)
  have "written (set_text_at q v d) p v"
  proof (cases "q = p")
    case True
    with Cons.prems show ?thesis by (simp add: written_set_same written_attached)
  next
    case False
    with Cons.prems have "\<not> prefix q p" by (auto simp: strict_prefix_def)
    with Cons.prems show ?thesis by (simp add: written_set_other)
  qed
  from Cons.IH[OF this] Cons.prems show ?case by (simp add: set_text_all_def)
qed

lemma set_text_all_written:
  "p \<in> set ps \<Longrightarrow> attached d p \<Longrightarrow> \<forall>q\<in>set ps. \<not> strict_prefix q p
     \<Longrightarrow> written (set_text_all ps v d) p v"
proof (induction ps arbitrary: d)
  case Nil
  then show ?case by simp
next
  case (Cons q ps)
  show ?case
  proof (cases "q = p")
    case True
    with Cons.prems have "written (set_text_at q v d) p v" by (simp add: written_set_same)
    from written_set_text_all[OF this] Cons.prems show ?thesis by (simp add: set_text_all_def)
  next
    case False
    with Cons.prems have "p \<in> set ps" "attached (set_text_at q v d) p"
      by (auto simp: attached_set_text_at)
    from Cons.IH[OF this] Cons.prems show ?thesis by (simp add: set_text_all_def)
  qed
qed

section \<open>Selections and loops\<close>

lemma attached_Cons:
  "attached (Elem tg i cs ks) (k # r) = (k < length ks \<and> attached (ks ! k) r)"
  by (simp add: attached_def)

lemma attached_Nil: "attached n [] = is_elem n"
  by (simp add: attached_def)

lemma sel_heads:
  "p \<in> set (sel_kids sel anc j ks) \<Longrightarrow> \<exists>k r. p = k # r \<and> j \<le> k"
proof (induction ks arbitrary: j)
  case Nil
  then show ?case by simp
next
  case (Cons k ks)
  then show ?case by (auto dest!: Cons.IH)
qed

lemma sel_attached:
  "p \<in> set (sel_node sel anc l n) \<Longrightarrow> attached n p"
  "p \<in> set (sel_kids sel anc j ks) \<Longrightarrow>
     \<exists>k r. p = k # r \<and> j \<le> k \<and> k - j < length ks \<and> attached (ks ! (k - j)) r"
proof (induction sel anc l n and sel anc j ks arbitrary: p and p rule: sel_node_sel_kids.induct)
  case (1 sel anc l t)
  then show ?case by simp
next
  case (2 sel anc l tg i cs ks)
  show ?case
  proof (cases "p = []")
    case True
    then show ?thesis by (simp add: attached_Nil)
  next
    case False
    with "2.prems" have "p \<in> set (sel_kids sel ((tg, i, cs, l) # anc) 0 ks)"
      by (auto split: if_splits)
    from "2.IH"[OF this] show ?thesis by (auto simp: attached_Cons)
  qed
next
  case (3 sel anc j)
  then show ?case by simp
next
  case (4 sel anc j k ks)
  from "4.prems" consider
    (here) r where "p = j # r" "r \<in> set (sel_node sel anc (\<not> list_ex is_elem ks) k)"
    | (later) "p \<in> set (sel_kids sel anc (Suc j) ks)"
    by auto
  then show ?case
  proof cases
    case here
    from "4.IH"(1)[OF here(2)] here(1) show ?thesis by auto
  next
    case later
    from "4.IH"(2)[OF later] obtain k' r where
      "p = k' # r" "Suc j \<le> k'" "k' - Suc j < length ks" "attached (ks ! (k' - Suc j)) r"
      by blast
    then show ?thesis
      by (intro exI[of _ k'] exI[of _ r]) (auto simp: Suc_diff_le nth_Cons')
  qed
qed

lemma select_attached: "p \<in> set (select sel d) \<Longrightarrow> attached d p"
  by (simp add: select_def sel_attached(1))






lemma each_read_first_find:
  "each_read_first P d ps val =
     (case find (\<lambda>p. P (trim (text_of d p))) ps of
        None \<Rightarrow> val
      | Some p \<Rightarrow> trim (text_of d p))"
  by (induction ps) auto




section \<open>The card-digit format, as written\<close>

lemma update_field_written:
  assumes "newBalances k = Some v" "v \<noteq> []" "p \<in> set (select sel d)"
    "\<forall>q\<in>set (select sel d). \<not> strict_prefix q p"
  shows "written (update_field newBalances k sel f d) p (f v)"
proof -
  from assms(3) have "select sel d \<noteq> []" by auto
  with assms(1,2) have "update_field newBalances k sel f d = set_text_all (select sel d) (f v) d"
    by (simp add: update_field_def given_def)
  with set_text_all_written[OF assms(3) select_attached[OF assms(3)] assms(4)]
  show ?thesis by simp
qed

lemma update_field_not_given: "\<not> given newBalances k \<Longrightarrow> update_field newBalances k sel f d = d"
  by (simp add: update_field_def)

lemmas sel_defs = select_def matches_def m_compound_def

text \<open>
  C3. A card-digit string written under a dotted-prefix rule: a string that starts with
  \<^verbatim>\<open>...\<close> is written as it is; any other string is written as \<^verbatim>\<open>...\<close>
  followed by the string without its leading dots. This is the text found afterwards in
  the elements located by the rule of the direct-debits document and of the transfers
  document (those not inside another located element, which leave the document).
\<close>

theorem card_digit_format:
  "(startsWith v ''...'' \<longrightarrow> formatCardDigits v = v) \<and>
   (\<not> startsWith v ''...'' \<longrightarrow>
      formatCardDigits v = ''...'' @ dropWhile (\<lambda>c. c = CHR ''.'') v) \<and>
   (v \<noteq> [] \<and> nb ''cardLastDigits'' = Some v \<and> \<not> given nb ''accountsBalanceAmount'' \<and>
    \<not> given nb ''availableAmount'' \<and> \<not> given nb ''availableCurrency'' \<and>
    p \<in> set (select sel_box_iban d) \<and> (\<forall>q\<in>set (select sel_box_iban d). \<not> strict_prefix q p)
      \<longrightarrow> written (updateDirectDebitsValues d nb) p (formatCardDigits v)) \<and>
   (v \<noteq> [] \<and> nb ''cardLastDigits'' = Some v \<and> \<not> given nb ''accountBalance'' \<and>
    p \<in> set (select sel_dropdown_iban d) \<and>
    (\<forall>q\<in>set (select sel_dropdown_iban d). \<not> strict_prefix q p)
      \<longrightarrow> written (updateTransfersValues d nb) p (formatCardDigits v))"
proof (intro conjI impI)
  assume "startsWith v ''...''"
  then show "formatCardDigits v = v" by (simp add: formatCardDigits_def)
next
  assume "\<not> startsWith v ''...''"
  then show "formatCardDigits v = ''...'' @ dropWhile (\<lambda>c. c = CHR ''.'') v"
    by (simp add: formatCardDigits_def strip_leading_dots_dropWhile)
next
  assume a: "v \<noteq> [] \<and> nb ''cardLastDigits'' = Some v \<and> \<not> given nb ''accountsBalanceAmount'' \<and>
    \<not> given nb ''availableAmount'' \<and> \<not> given nb ''availableCurrency'' \<and>
    p \<in> set (select sel_box_iban d) \<and> (\<forall>q\<in>set (select sel_box_iban d). \<not> strict_prefix q p)"
  then have "updateDirectDebitsValues d nb =
      update_field nb ''cardLastDigits'' sel_box_iban formatCardDigits d"
    by (simp add: updateDirectDebitsValues_def update_field_not_given)
  with a show "written (updateDirectDebitsValues d nb) p (formatCardDigits v)"
    by (simp add: update_field_written)
next
  assume a: "v \<noteq> [] \<and> nb ''cardLastDigits'' = Some v \<and> \<not> given nb ''accountBalance'' \<and>
    p \<in> set (select sel_dropdown_iban d) \<and>
    (\<forall>q\<in>set (select sel_dropdown_iban d). \<not> strict_prefix q p)"
  then have "updateTransfersValues d nb =
      update_field nb ''cardLastDigits'' sel_dropdown_iban formatCardDigits d"
    by (simp add: updateTransfersValues_def)
  with a show "written (updateTransfersValues d nb) p (formatCardDigits v)"
    by (simp add: update_field_written)
qed

theorem card_digit_format_witness:
  "formatCardDigits ''...2150'' = ''...2150'' \<and>
   formatCardDigits ''.2150'' = ''...2150'' \<and>
   written (updateDirectDebitsValues sample_debits [''cardLastDigits'' \<mapsto> ''2150'']) [0, 0] ''...2150'' \<and>
   written (updateTransfersValues sample_transfers [''cardLastDigits'' \<mapsto> ''..2150'']) [0, 0] ''...2150''"
  using card_digit_format [of "''...2150''"]
    card_digit_format [of "''.2150''"]
    card_digit_format [of "''2150''" "[''cardLastDigits'' \<mapsto> ''2150'']" "[0, 0]" sample_debits]
    card_digit_format [of "''..2150''" "[''cardLastDigits'' \<mapsto> ''..2150'']" "[0, 0]" sample_transfers]
  by (simp add: startsWith_def given_def sample_debits_def sample_transfers_def
        sel_box_iban_def sel_dropdown_iban_def sel_defs formatCardDigits_def)

section \<open>Unknown file types\<close>

lemma globalUpdates_Inr: "\<exists>st'. globalUpdates st nb ft = Inr st'"
  by (simp add: globalUpdates_def updateCardDigitsGlobally_def updateAccountBalanceGlobally_def
      updateAvatarNameGlobally_def)

text \<open>
  C10. A file type outside the four registered ones: both routes fail, as the claim says,
  but the error they fail with is the reference error raised in the \<^verbatim>\<open>catch\<close>
  block of \<^verbatim>\<open>loadHTMLFile\<close>, not the "Unknown file type" error thrown in its
  \<^verbatim>\<open>try\<close> block. \<^verbatim>\<open>extractBalanceValues\<close> itself throws
  "Unknown file type" for a key that \<^verbatim>\<open>FIELD_CONFIGS\<close> does not have, and returns
  an empty record for a key it only inherits.
\<close>

theorem unknown_file_type_errors:
  "getCurrentBalances st ''savings'' = Inl (JsReferenceError ''fileName is not defined'') \<and>
   postUpdateBalances st nb ''savings'' = (st, Some (JsReferenceError ''fileName is not defined'')) \<and>
   extractBalanceValues d ''savings'' = Inl (JsError ''Unknown file type: savings'') \<and>
   extractBalanceValues d ''constructor'' = Inr Map.empty"
  by (simp add: getCurrentBalances_def postUpdateBalances_def loadHTMLFile_def
      loadHTMLFile_try_def get_property_def HTML_FILES_def object_prototype_keys_def
      extractBalanceValues_def FIELD_CONFIGS_def)

section \<open>The fields that reach the local rules\<close>

text \<open>
  C4, as stated, fails: \<^verbatim>\<open>accountTotalBalance\<close> is propagated to the other
  documents and is still in the request when \<^verbatim>\<open>updateOpenbankValues\<close> runs,
  which writes it into the caller's document.
\<close>

theorem account_total_stays_counterexample:
  "accountBalanceGlobal [''accountTotalBalance'' \<mapsto> ''1000.50''] ''openbank'' \<and>
   otherBalances [''accountTotalBalance'' \<mapsto> ''1000.50''] ''openbank'' ''accountTotalBalance''
     = Some ''1000.50'' \<and>
   text_of sample_openbank [0, 0, 0, 0] = ''430.26'' \<and>
   map_sum id (\<lambda>d. text_of d [0, 0, 0, 0])
     (snd (updateBalanceValues sample_fs sample_openbank
             [''accountTotalBalance'' \<mapsto> ''1000.50''] ''openbank''))
     = Inr ''1000.50''"
  by code_simp

text \<open>
  C4, amended. \<^verbatim>\<open>cardLastDigits\<close> (when it was propagated: a request for
  \<^verbatim>\<open>openbank\<close> or \<^verbatim>\<open>transfers\<close>) and \<^verbatim>\<open>avatarName\<close> are
  taken out of the request before the rules of the requested document run; every other
  field, \<^verbatim>\<open>accountTotalBalance\<close> among them, reaches those rules unchanged.
\<close>

theorem working_set:
  "(cardDigitsGlobal nb ft \<longrightarrow> otherBalances nb ft ''cardLastDigits'' = None) \<and>
   (given nb ''avatarName'' \<longrightarrow> otherBalances nb ft ''avatarName'' = None) \<and>
   (k \<noteq> ''cardLastDigits'' \<and> k \<noteq> ''avatarName'' \<longrightarrow> otherBalances nb ft k = nb k) \<and>
   snd (updateBalanceValues st d nb ''openbank'')
     = Inr (updateOpenbankValues d (otherBalances nb ''openbank'')) \<and>
   snd (updateBalanceValues st d nb ''directDebits'')
     = Inr (updateDirectDebitsValues d (otherBalances nb ''directDebits'')) \<and>
   snd (updateBalanceValues st d nb ''cards'')
     = Inr (updateCardsValues d (otherBalances nb ''cards'')) \<and>
   snd (updateBalanceValues st d nb ''transfers'')
     = Inr (updateTransfersValues d (otherBalances nb ''transfers''))"
proof -
  have u: "\<And>ft. \<exists>st'. globalUpdates st nb ft = Inr st'" by (rule globalUpdates_Inr)
  have a: "cardDigitsGlobal nb ft \<longrightarrow> otherBalances nb ft ''cardLastDigits'' = None"
    by (simp add: otherBalances_def Let_def)
  have b: "given nb ''avatarName'' \<longrightarrow> otherBalances nb ft ''avatarName'' = None"
    by (simp add: otherBalances_def Let_def given_def)
  have c: "k \<noteq> ''cardLastDigits'' \<and> k \<noteq> ''avatarName'' \<longrightarrow> otherBalances nb ft k = nb k"
    by (simp add: otherBalances_def Let_def)
  have d1: "snd (updateBalanceValues st d nb ''openbank'')
     = Inr (updateOpenbankValues d (otherBalances nb ''openbank''))"
    using u[of "''openbank''"] by (auto simp: updateBalanceValues_def Let_def)
  have d2: "snd (updateBalanceValues st d nb ''directDebits'')
     = Inr (updateDirectDebitsValues d (otherBalances nb ''directDebits''))"
    using u[of "''directDebits''"] by (auto simp: updateBalanceValues_def Let_def)
  have d3: "snd (updateBalanceValues st d nb ''cards'')
     = Inr (updateCardsValues d (otherBalances nb ''cards''))"
    using u[of "''cards''"] by (auto simp: updateBalanceValues_def Let_def)
  have d4: "snd (updateBalanceValues st d nb ''transfers'')
     = Inr (updateTransfersValues d (otherBalances nb ''transfers''))"
    using u[of "''transfers''"] by (auto simp: updateBalanceValues_def Let_def)
  from a b c d1 d2 d3 d4 show ?thesis by blast
qed

theorem working_set_witness:
  "otherBalances [''cardLastDigits'' \<mapsto> ''2150'', ''avatarName'' \<mapsto> ''Ana'',
                  ''accountTotalBalance'' \<mapsto> ''1000.50''] ''openbank''
     = [''accountTotalBalance'' \<mapsto> ''1000.50'']"
proof (rule ext)
  fix k
  let ?nb = "[''cardLastDigits'' \<mapsto> ''2150'', ''avatarName'' \<mapsto> ''Ana'',
              ''accountTotalBalance'' \<mapsto> ''1000.50'']"
  have "cardDigitsGlobal ?nb ''openbank''" "given ?nb ''avatarName''"
    by (simp_all add: cardDigitsGlobal_def given_def)
  with working_set [of ?nb "''openbank''" k]
  show "otherBalances ?nb ''openbank'' k = [''accountTotalBalance'' \<mapsto> ''1000.50''] k"
    by (cases "k = ''cardLastDigits''"; cases "k = ''avatarName''") auto
qed

section \<open>Extraction from a document where nothing is located\<close>

text \<open>
  C2, as stated, fails: for \<^verbatim>\<open>monthlyExpenses\<close> the extractor falls back to
  \<^verbatim>\<open>0.00\<close>, the table registers \<^verbatim>\<open>0.00\<close> followed by the currency sign.
\<close>

theorem monthly_expenses_default_counterexample:
  "locates_nothing ''openbank'' empty_doc \<and>
   extracted empty_doc ''openbank'' ''monthlyExpenses'' = Some ''0.00'' \<and>
   registered_defaults ''openbank'' ''monthlyExpenses'' = Some (''0.00 '' @ euro) \<and>
   extracted empty_doc ''openbank'' ''monthlyExpenses''
     \<noteq> registered_defaults ''openbank'' ''monthlyExpenses''"
  by code_simp

lemma closest_Nil: "closest sel d [] = []"
  by (simp add: closest_def)

lemma first_Nil: "first [] = []"
  by (simp add: first_def)

lemma sel_text_Nil: "sel_text d [] = []"
  by (simp add: sel_text_def)

lemma trim_Nil: "trim [] = []"
  by (simp add: trim_def trimStart_def trimEnd_def)

lemma extractAvatarName_none: "select sel_avatar d = [] \<Longrightarrow> extractAvatarName d = ''Alfonso''"
  by (simp add: extractAvatarName_def first_Nil)

lemma extractSectionTotal_none:
  "select_contains sel_statement phrase d = [] \<Longrightarrow> extractSectionTotal phrase d = ''0.00''"
  by (simp add: extractSectionTotal_def section_amount_def closest_Nil)

lemma registered_openbank:
  "registered_defaults ''openbank'' =
     [''accountTotalBalance'' \<mapsto> ''430.26'', ''individualAccountBalance'' \<mapsto> ''0.00'',
      ''totalSavingsBalance'' \<mapsto> ''0.00'', ''monthlyExpenses'' \<mapsto> ''0.00 '' @ euro,
      ''savingsInvestmentsTotal'' \<mapsto> ''0.00'', ''totalLending'' \<mapsto> ''0.00'',
      ''cardLastDigits'' \<mapsto> ''...2150'', ''avatarName'' \<mapsto> ''Alfonso'']"
  by (rule ext) (simp add: registered_defaults_def FIELD_CONFIGS_def)

text \<open>
  C2, amended. For each of the four file types, extraction from a document in which no
  rule locates a node returns (and never throws) a record with the registered default of
  every registered field, except that \<^verbatim>\<open>monthlyExpenses\<close> of
  \<^verbatim>\<open>openbank\<close> is \<^verbatim>\<open>0.00\<close> without the currency sign; the record of
  \<^verbatim>\<open>transfers\<close> holds \<^verbatim>\<open>accountBalance\<close> = \<^verbatim>\<open>0.00\<close> besides.
\<close>

theorem extract_defaults:
  "(locates_nothing ''openbank'' d \<longrightarrow>
      extractBalanceValues d ''openbank''
        = Inr ((registered_defaults ''openbank'')(''monthlyExpenses'' \<mapsto> ''0.00''))) \<and>
   (locates_nothing ''directDebits'' d \<longrightarrow>
      extractBalanceValues d ''directDebits'' = Inr (registered_defaults ''directDebits'')) \<and>
   (locates_nothing ''cards'' d \<longrightarrow>
      extractBalanceValues d ''cards'' = Inr (registered_defaults ''cards'')) \<and>
   (locates_nothing ''transfers'' d \<longrightarrow>
      extractBalanceValues d ''transfers''
        = Inr ((registered_defaults ''transfers'')(''accountBalance'' \<mapsto> ''0.00'')))"
proof (intro conjI impI)
  assume "locates_nothing ''openbank'' d"
  then have n: "select sel_account_total d = []" "select sel_individual_account d = []"
    "select sel_total_balance_amount d = []" "select sel_monthly_expenses d = []"
    "select sel_avatar d = []" "select sel_card_title d = []"
    "select_contains sel_statement ''Total savings and investments'' d = []"
    "select_contains sel_statement ''Total Lending'' d = []"
    by (simp_all add: locates_nothing_def rule_selectors_def)
  have "extractOpenbankValues d = (registered_defaults ''openbank'')(''monthlyExpenses'' \<mapsto> ''0.00'')"
    by (rule ext)
      (simp add: extractOpenbankValues_def n extractMonthlyExpenses_def extractAvatarName_none
        extractSectionTotal_none extractOpenbankCardDigits_def registered_openbank)
  then show "extractBalanceValues d ''openbank''
        = Inr ((registered_defaults ''openbank'')(''monthlyExpenses'' \<mapsto> ''0.00''))"
    by (simp add: extractBalanceValues_def get_property_def FIELD_CONFIGS_def)
next
  assume "locates_nothing ''directDebits'' d"
  then have n: "select sel_accounts_balance d = []" "select sel_box_iban d = []"
    "select sel_available_amount d = []" "select sel_available_currency d = []"
    "select sel_avatar d = []"
    by (simp_all add: locates_nothing_def rule_selectors_def)
  have "extractDirectDebitsValues d = registered_defaults ''directDebits''"
    by (rule ext)
      (simp add: extractDirectDebitsValues_def n extractAvatarName_none sel_text_Nil trim_Nil
        or_default_def registered_defaults_def FIELD_CONFIGS_def)
  then show "extractBalanceValues d ''directDebits'' = Inr (registered_defaults ''directDebits'')"
    by (simp add: extractBalanceValues_def get_property_def FIELD_CONFIGS_def)
next
  assume "locates_nothing ''cards'' d"
  then have n: "select sel_card_number d = []" "select sel_avatar d = []"
    by (simp_all add: locates_nothing_def rule_selectors_def)
  have "extractCardsValues d = registered_defaults ''cards''"
    by (rule ext)
      (simp add: extractCardsValues_def n extractAvatarName_none sel_text_Nil trim_Nil
        or_default_def registered_defaults_def FIELD_CONFIGS_def)
  then show "extractBalanceValues d ''cards'' = Inr (registered_defaults ''cards'')"
    by (simp add: extractBalanceValues_def get_property_def FIELD_CONFIGS_def)
next
  assume "locates_nothing ''transfers'' d"
  then have n: "select sel_dropdown_iban d = []" "select sel_dropdown_amount d = []"
    "select sel_avatar d = []"
    by (simp_all add: locates_nothing_def rule_selectors_def)
  have "extractTransfersValues d = (registered_defaults ''transfers'')(''accountBalance'' \<mapsto> ''0.00'')"
    by (rule ext)
      (simp add: extractTransfersValues_def n extractAvatarName_none sel_text_Nil trim_Nil
        or_default_def registered_defaults_def FIELD_CONFIGS_def)
  then show "extractBalanceValues d ''transfers''
        = Inr ((registered_defaults ''transfers'')(''accountBalance'' \<mapsto> ''0.00''))"
    by (simp add: extractBalanceValues_def get_property_def FIELD_CONFIGS_def)
qed

theorem extract_defaults_witness:
  "extractBalanceValues empty_doc ''openbank''
     = Inr ((registered_defaults ''openbank'')(''monthlyExpenses'' \<mapsto> ''0.00'')) \<and>
   extractBalanceValues empty_doc ''directDebits'' = Inr (registered_defaults ''directDebits'') \<and>
   extractBalanceValues empty_doc ''cards'' = Inr (registered_defaults ''cards'') \<and>
   extractBalanceValues empty_doc ''transfers''
     = Inr ((registered_defaults ''transfers'')(''accountBalance'' \<mapsto> ''0.00''))"
proof -
  have "locates_nothing ''openbank'' empty_doc" "locates_nothing ''directDebits'' empty_doc"
    "locates_nothing ''cards'' empty_doc" "locates_nothing ''transfers'' empty_doc"
    by code_simp+
  with extract_defaults [of empty_doc] show ?thesis by blast
qed

section \<open>The selection after a write\<close>

lemma is_elem_set_text_at: "is_elem (set_text_at p v n) = is_elem n"
  by (cases n; cases p) auto

lemma list_ex_is_elem_update:
  "is_elem k' = is_elem (ks ! j) \<Longrightarrow> list_ex is_elem (ks[j := k']) = list_ex is_elem ks"
proof (induction ks arbitrary: j)
  case Nil
  then show ?case by simp
next
  case (Cons k ks)
  then show ?case by (cases j) auto
qed

lemma filter_heads:
  assumes "\<forall>q\<in>set qs. \<exists>k r. q = k # r \<and> k \<noteq> j"
  shows "filter (\<lambda>q. \<not> strict_prefix (j # p) q) qs = qs"
  using assms by (auto simp: filter_id_conv strict_prefix_def)

lemma sel_kids_update:
  assumes "j < length ks" "is_elem k' = is_elem (ks ! j)"
    "\<And>l. sel_node sel anc l k' = filter (\<lambda>q. \<not> strict_prefix p q) (sel_node sel anc l (ks ! j))"
  shows "sel_kids sel anc b (ks[j := k']) =
           filter (\<lambda>q. \<not> strict_prefix ((b + j) # p) q) (sel_kids sel anc b ks)"
  using assms
proof (induction ks arbitrary: j b)
  case Nil
  then show ?case by simp
next
  case (Cons k ks)
  show ?case
  proof (cases j)
    case 0
    have "filter (\<lambda>q. \<not> strict_prefix (b # p) q) (sel_kids sel anc (Suc b) ks)
            = sel_kids sel anc (Suc b) ks"
      by (rule filter_heads) (auto dest!: sel_heads)
    with 0 Cons.prems(3)[of "\<not> list_ex is_elem ks"] show ?thesis
      by (simp add: filter_map comp_def)
  next
    case (Suc j')
    with Cons.prems have j': "j' < length ks" "is_elem k' = is_elem (ks ! j')"
      and s: "\<And>l. sel_node sel anc l k' = filter (\<lambda>q. \<not> strict_prefix p q) (sel_node sel anc l (ks ! j'))"
      by auto
    from Cons.IH[OF j' s, of "Suc b"]
    have rest: "sel_kids sel anc (Suc b) (ks[j' := k']) =
      filter (\<lambda>q. \<not> strict_prefix ((b + j) # p) q) (sel_kids sel anc (Suc b) ks)"
      using Suc by simp
    have here: "filter (\<lambda>q. \<not> strict_prefix ((b + j) # p) q)
                  (map ((#) b) (sel_node sel anc (\<not> list_ex is_elem ks) k))
                = map ((#) b) (sel_node sel anc (\<not> list_ex is_elem ks) k)"
      by (rule filter_heads) (use Suc in auto)
    from rest here Suc list_ex_is_elem_update[OF j'(2)] show ?thesis by simp
  qed
qed

lemma sel_node_set_text_at:
  "sel_node sel anc l (set_text_at p v n) =
     filter (\<lambda>q. \<not> strict_prefix p q) (sel_node sel anc l n)"
proof (induction p arbitrary: n anc l)
  case Nil
  show ?case
  proof (cases n)
    case (Text t)
    then show ?thesis by simp
  next
    case (Elem tg i cs ks)
    have "filter (\<lambda>q. \<not> strict_prefix [] q) (sel_kids sel ((tg, i, cs, l) # anc) 0 ks) = []"
      by (auto simp: filter_empty_conv dest!: sel_heads)
    with Elem show ?thesis by simp
  qed
next
  case (Cons j p)
  show ?case
  proof (cases n)
    case (Text t)
    then show ?thesis by simp
  next
    case (Elem tg i cs ks)
    show ?thesis
    proof (cases "j < length ks")
      case True
      have "sel_kids sel ((tg, i, cs, l) # anc) 0 (ks[j := set_text_at p v (ks ! j)]) =
              filter (\<lambda>q. \<not> strict_prefix ((0 + j) # p) q)
                (sel_kids sel ((tg, i, cs, l) # anc) 0 ks)"
        by (rule sel_kids_update) (simp_all add: True is_elem_set_text_at Cons.IH)
      with Elem True show ?thesis by (simp add: strict_prefix_def)
    next
      case False
      have "filter (\<lambda>q. \<not> strict_prefix (j # p) q) (sel_kids sel ((tg, i, cs, l) # anc) 0 ks)
              = sel_kids sel ((tg, i, cs, l) # anc) 0 ks"
        by (rule filter_heads) (use False in \<open>auto dest!: sel_attached(2)\<close>)
      with Elem False show ?thesis by (simp add: strict_prefix_def)
    qed
  qed
qed

lemma select_set_text_at:
  "select sel (set_text_at p v d) = filter (\<lambda>q. \<not> strict_prefix p q) (select sel d)"
  by (simp add: select_def sel_node_set_text_at)

lemma select_set_text_at_Nil: "select sel d = [] \<Longrightarrow> select sel (set_text_at p v d) = []"
  by (simp add: select_set_text_at)

section \<open>The targets of a global update\<close>








text \<open>
  C7. One of the two targets of a global update cannot be written. Each update goes on
  to the other target, updates it and returns normally, and prints one line per target.
  The counters differ: \<^verbatim>\<open>updateAccountBalanceGlobally\<close> counts the failed
  target as skipped (one updated, one skipped), \<^verbatim>\<open>updateCardDigitsGlobally\<close>
  counts it nowhere (one updated, none skipped, for two targets): its
  \<^verbatim>\<open>catch\<close> block has no \<^verbatim>\<open>skippedCount++\<close>.
\<close>

theorem failed_target_not_counted:
  "map_sum id (\<lambda>r. (console r, updatedCount r, skippedCount r,
                     map_option (\<lambda>d. text_of d [0, 0]) (files (store r) ''Openbank-transfers.html''),
                     files (store r) ''Openbank.html'' = files sample_fs ''Openbank.html''))
     (updateCardDigitsGlobally ''9999'' (sample_fs\<lparr>unwritable := {''Openbank.html''}\<rparr>))
     = Inr ([(''openbank'', Failed), (''transfers'', Updated)], 1, 0, Some ''...9999'', True) \<and>
   map_sum id (\<lambda>r. (console r, updatedCount r, skippedCount r,
                     map_option (\<lambda>d. text_of d [0, 1, 0]) (files (store r) ''Openbank-transfers.html''),
                     files (store r) ''Openbank.html'' = files sample_fs ''Openbank.html''))
     (updateAccountBalanceGlobally ''1000.50'' (sample_fs\<lparr>unwritable := {''Openbank.html''}\<rparr>))
     = Inr ([(''openbank'', Failed), (''transfers'', Updated)], 1, 1, Some ''1000.50'', True) \<and>
   map_sum id (\<lambda>r. (console r, updatedCount r, skippedCount r))
     (updateCardDigitsGlobally ''9999'' (sample_fs\<lparr>files := (files sample_fs)(''Openbank.html'' := None)\<rparr>))
     = Inr ([(''openbank'', Failed), (''transfers'', Updated)], 1, 0) \<and>
   map_sum id (\<lambda>r. (console r, updatedCount r, skippedCount r))
     (updateAccountBalanceGlobally ''1000.50'' (sample_fs\<lparr>files := (files sample_fs)(''Openbank.html'' := None)\<rparr>))
     = Inr ([(''openbank'', Failed), (''transfers'', Updated)], 1, 1)"
  by code_simp

section \<open>Requests that succeed\<close>

lemma set_text_all_opt_None: "set_text_all_opt ps None d = d"
  by (induction ps) (simp_all add: set_text_all_opt_def)

lemma each_write_first_None: "snd (each_write_first P None ps d) = d"
  by (induction ps) auto

lemma updateSectionTotal_None: "updateSectionTotal phrase None d = d"
  by (simp add: updateSectionTotal_def set_text_all_opt_None split: option.splits)

lemma set_text_all_Nil: "set_text_all [] v d = d"
  by (simp add: set_text_all_def)

lemma writeFile_unwritable: "writeFile st f d = Inr st' \<Longrightarrow> unwritable st' = unwritable st"
  by (auto simp: writeFile_def split: if_splits)

lemma saveHTMLFile_unwritable:
  "saveHTMLFile st d ft = Inr st' \<Longrightarrow> unwritable st' = unwritable st"
  by (auto simp: saveHTMLFile_def saveHTMLFile_try_def split: sum.splits property.splits
      dest: writeFile_unwritable)

lemma cardDigitsFile_unwritable:
  "cardDigitsFile v t st = Inr (u, st') \<Longrightarrow> unwritable st' = unwritable st"
  by (auto simp: cardDigitsFile_def Let_def split: sum.splits if_splits prod.splits
      dest: saveHTMLFile_unwritable)

lemma accountBalanceFile_unwritable:
  "accountBalanceFile v t st = Inr (u, st') \<Longrightarrow> unwritable st' = unwritable st"
  by (auto simp: accountBalanceFile_def Let_def split: sum.splits if_splits prod.splits
      dest: saveHTMLFile_unwritable)

lemma avatarNameFile_unwritable:
  "avatarNameFile v f st = Inr (u, st') \<Longrightarrow> unwritable st' = unwritable st"
  by (auto simp: avatarNameFile_def Let_def split: sum.splits if_splits prod.splits
      dest: writeFile_unwritable)

lemma cardDigitsLoop_unwritable:
  "unwritable (store (cardDigitsLoop v ts r)) = unwritable (store r)"
proof (induction ts arbitrary: r)
  case Nil
  then show ?case by simp
next
  case (Cons t ts)
  show ?case
    by (simp add: Cons.IH split: sum.splits prod.splits) (auto dest: cardDigitsFile_unwritable)
qed

lemma accountBalanceLoop_unwritable:
  "unwritable (store (accountBalanceLoop v ts r)) = unwritable (store r)"
proof (induction ts arbitrary: r)
  case Nil
  then show ?case by simp
next
  case (Cons t ts)
  show ?case
    by (simp add: Cons.IH split: sum.splits prod.splits) (auto dest: accountBalanceFile_unwritable)
qed

lemma avatarNameLoop_unwritable:
  "unwritable (store (avatarNameLoop v fs r)) = unwritable (store r)"
proof (induction fs arbitrary: r)
  case Nil
  then show ?case by simp
next
  case (Cons t ts)
  show ?case
    by (simp add: Cons.IH split: sum.splits prod.splits) (auto dest: avatarNameFile_unwritable)
qed

lemma globalUpdates_unwritable:
  "\<exists>st'. globalUpdates st nb ft = Inr st' \<and> unwritable st' = unwritable st"
  by (simp add: globalUpdates_def updateCardDigitsGlobally_def updateAccountBalanceGlobally_def
      updateAvatarNameGlobally_def cardDigitsLoop_unwritable accountBalanceLoop_unwritable
      avatarNameLoop_unwritable start_def
      del: cardDigitsLoop.simps accountBalanceLoop.simps)

lemma otherBalances_other:
  "k \<noteq> ''cardLastDigits'' \<Longrightarrow> k \<noteq> ''avatarName'' \<Longrightarrow> otherBalances nb ft k = nb k"
  by (simp add: otherBalances_def Let_def)

lemma set_text_at_written: "written d p v \<Longrightarrow> set_text_at p v d = d"
proof (induction p arbitrary: d)
  case Nil
  then show ?case by (auto simp: written_def)
next
  case (Cons j p)
  then obtain tg i cs ks where d: "d = Elem tg i cs ks" "j < length ks" "written (ks ! j) p v"
    by (cases d) (auto simp: written_def split: if_splits)
  from Cons.IH[OF d(3)] d show ?case by (simp add: list_update_same_conv)
qed

lemma find_Some_holds: "find P xs = Some p \<Longrightarrow> P p"
  by (induction xs) (auto split: if_splits)

lemma find_filter_first:
  assumes "find P xs = Some p" "F p" "P' p"
    "\<forall>x\<in>set xs. F x \<longrightarrow> x \<noteq> p \<longrightarrow> \<not> P x \<longrightarrow> \<not> P' x"
  shows "find P' (filter F xs) = Some p"
  using assms
proof (induction xs)
  case Nil
  then show ?case by simp
next
  case (Cons x xs)
  from Cons.prems(1) have Pp: "P p" by (rule find_Some_holds)
  show ?case
  proof (cases "P x")
    case True
    with Cons.prems show ?thesis by simp
  next
    case False
    with Pp have "x \<noteq> p" by auto
    with False Cons.prems have "F x \<Longrightarrow> \<not> P' x" by simp
    moreover from False Cons.prems Cons.IH have "find P' (filter F xs) = Some p" by simp
    ultimately show ?thesis by auto
  qed
qed

text \<open>
  The first-match rule after its own write: the element written is again the first
  located element that passes the filter.
\<close>

lemma first_match_again:
  assumes f: "find (\<lambda>q. numeric_text (trim (text_of d q))) (select sel d) = Some p"
    and top: "\<forall>q\<in>set (select sel d). \<not> strict_prefix q p"
    and v: "numeric_text (trim v)"
  shows "find (\<lambda>q. numeric_text (trim (text_of (set_text_at p v d) q)))
           (select sel (set_text_at p v d)) = Some p"
    and "written (set_text_at p v d) p v"
proof -
  from f have p: "p \<in> set (select sel d)" by (auto simp: find_Some_iff)
  then have att: "attached d p" by (rule select_attached)
  then show w: "written (set_text_at p v d) p v" by (rule written_set_same)
  have same: "text_of (set_text_at p v d) x = text_of d x"
    if "x \<in> set (select sel d)" "\<not> strict_prefix p x" "x \<noteq> p" for x
  proof -
    from that top have "\<not> prefix p x" "\<not> prefix x p" by (auto simp: strict_prefix_def)
    then show ?thesis by (simp add: text_of_def node_at_set_other)
  qed
  show "find (\<lambda>q. numeric_text (trim (text_of (set_text_at p v d) q)))
           (select sel (set_text_at p v d)) = Some p"
    unfolding select_set_text_at
    by (rule find_filter_first[OF f]) (use w v same in \<open>auto simp: written_text_of\<close>)
qed



lemma find_same:
  "\<forall>x\<in>set xs. P x = Q x \<Longrightarrow> find P xs = find Q xs"
  by (induction xs) auto

lemma prefix_cases:
  "\<not> prefix q p \<Longrightarrow> strict_prefix p q \<or> (\<not> prefix p q \<and> \<not> prefix q p)"
  by (auto simp: strict_prefix_def)

lemma apart_iff:
  "apart ps qs = (\<forall>p\<in>set ps. \<forall>q\<in>set qs. \<not> prefix p q \<and> \<not> prefix q p)"
  by (simp add: apart_def list_all_iff)

lemma apart_subset:
  "apart ps qs \<Longrightarrow> set ps' \<subseteq> set ps \<Longrightarrow> set qs' \<subseteq> set qs \<Longrightarrow> apart ps' qs'"
  by (auto simp: apart_iff)

subsection \<open>Writing a whole selection\<close>


lemma written_set_text_all_other:
  "written d p v \<Longrightarrow> \<forall>q\<in>set ps. \<not> prefix q p \<Longrightarrow> written (set_text_all ps w d) p v"
  by (induction ps arbitrary: d) (simp_all add: set_text_all_def written_set_other)

lemma select_set_text_all:
  "select sel (set_text_all ps w d) =
     filter (\<lambda>q. \<forall>p\<in>set ps. \<not> strict_prefix p q) (select sel d)"
proof (induction ps arbitrary: d)
  case Nil
  then show ?case by (simp add: set_text_all_def)
next
  case (Cons p ps)
  have "set_text_all (p # ps) w d = set_text_all ps w (set_text_at p w d)"
    by (simp add: set_text_all_def)
  with Cons[of "set_text_at p w d"] show ?case
    by (simp add: select_set_text_at conj_commute)
qed

lemma set_text_all_fixed: "\<forall>e\<in>set ps. written d e w \<Longrightarrow> set_text_all ps w d = d"
  by (induction ps) (simp_all add: set_text_all_def set_text_at_written)

text \<open>Writing the same text into the same selection once more changes nothing.\<close>

lemma set_text_all_again:
  "set_text_all (select sel (set_text_all (select sel d) w d)) w
     (set_text_all (select sel d) w d) = set_text_all (select sel d) w d"
proof (rule set_text_all_fixed, rule ballI)
  fix e
  assume "e \<in> set (select sel (set_text_all (select sel d) w d))"
  then have e: "e \<in> set (select sel d)" "\<forall>q\<in>set (select sel d). \<not> strict_prefix q e"
    by (simp_all add: select_set_text_all)
  from e(1) have "attached d e" by (rule select_attached)
  with e show "written (set_text_all (select sel d) w d) e w"
    by (simp add: set_text_all_written)
qed

section \<open>Loading a saved document\<close>

lemma html_text_clean: "CHR 0x0D \<notin> set (html_text s) \<and> CHR 0x00 \<notin> set (html_text s)"
  by (induction s rule: html_text.induct) auto

lemma html_text_same: "CHR 0x0D \<notin> set s \<Longrightarrow> CHR 0x00 \<notin> set s \<Longrightarrow> html_text s = s"
  by (induction s rule: html_text.induct) auto

lemma html_text_fixed_iff: "html_text s = s \<longleftrightarrow> CHR 0x0D \<notin> set s \<and> CHR 0x00 \<notin> set s"
  using html_text_clean[of s] html_text_same[of s] by auto

lemma html_text_idem: "html_text (html_text s) = html_text s"
  using html_text_clean[of s] by (simp add: html_text_same)

lemma html_text_euro: "html_text w = w \<Longrightarrow> html_text (w @ '' '' @ euro) = w @ '' '' @ euro"
  by (simp add: html_text_fixed_iff euro_def)

lemma filter_full: "length (filter P xs) = length xs \<Longrightarrow> filter P xs = xs"
proof (induction xs)
  case Nil
  then show ?case by simp
next
  case (Cons x xs)
  show ?case
  proof (cases "P x")
    case True
    with Cons show ?thesis by simp
  next
    case False
    with Cons.prems have "length (filter P xs) = Suc (length xs)" by simp
    with length_filter_le[of P xs] show ?thesis by (metis Suc_n_not_le_n)
  qed
qed

lemma map_fixed: "map f xs = xs \<Longrightarrow> x \<in> set xs \<Longrightarrow> f x = x"
  by (induction xs) auto

lemma filter_map_fixed:
  assumes "filter P (map f ks) = ks" "k \<in> set ks"
  shows "f k = k \<and> P k"
proof -
  from assms(1) have "length (filter P (map f ks)) = length (map f ks)" by simp
  then have m: "filter P (map f ks) = map f ks" by (rule filter_full)
  with assms(1) have e: "map f ks = ks" by simp
  from e assms(2) have "f k = k" by (rule map_fixed)
  moreover from m e have "filter P ks = ks" by simp
  with assms(2) have "P k" by (simp add: filter_id_conv)
  ultimately show ?thesis by simp
qed

lemma cheerio_load_kids:
  assumes "cheerio_load (Elem tg i cs ks) = Elem tg i cs ks" "k \<in> set ks"
  shows "cheerio_load k = k \<and> k \<noteq> Text []"
  using assms filter_map_fixed[of "\<lambda>k. k \<noteq> Text []" cheerio_load ks k] by simp

lemma cheerio_load_idem: "cheerio_load (cheerio_load d) = cheerio_load d"
proof (induction d)
  case (Text t)
  then show ?case by (simp add: html_text_idem)
next
  case (Elem tg i cs ks)
  let ?ks = "filter (\<lambda>k. k \<noteq> Text []) (map cheerio_load ks)"
  have "map cheerio_load ?ks = ?ks"
    by (rule map_idI) (use Elem in auto)
  then show ?case by simp
qed

text \<open>A text that the parser gives back as it is, written into a document as loaded.\<close>

lemma cheerio_load_set_text_at:
  assumes "v \<noteq> []" "html_text v = v"
  shows "cheerio_load d = d \<Longrightarrow> cheerio_load (set_text_at p v d) = set_text_at p v d"
proof (induction p arbitrary: d)
  case Nil
  with assms show ?case by (cases d) simp_all
next
  case (Cons j p)
  show ?case
  proof (cases d)
    case (Text t)
    with Cons.prems show ?thesis by simp
  next
    case (Elem tg i cs ks)
    show ?thesis
    proof (cases "j < length ks")
      case False
      with Elem Cons.prems show ?thesis by simp
    next
      case True
      let ?k = "set_text_at p v (ks ! j)"
      from True have mem: "ks ! j \<in> set ks" by simp
      from cheerio_load_kids[OF Cons.prems[unfolded Elem]] have
        all: "\<And>k. k \<in> set ks \<Longrightarrow> cheerio_load k = k \<and> k \<noteq> Text []" by blast
      from all[OF mem] have old: "cheerio_load (ks ! j) = ks ! j" "ks ! j \<noteq> Text []" by simp_all
      from Cons.IH[OF old(1)] have new: "cheerio_load ?k = ?k" .
      from old(2) have ne: "?k \<noteq> Text []" by (cases "ks ! j"; cases p) auto
      have "map cheerio_load ks = ks" by (rule map_idI) (simp add: all)
      then have m: "map cheerio_load (ks[j := ?k]) = ks[j := ?k]"
        by (simp add: map_update new)
      have "\<forall>x\<in>set (ks[j := ?k]). x \<noteq> Text []"
      proof
        fix x
        assume "x \<in> set (ks[j := ?k])"
        then obtain n where n: "n < length ks" "x = (ks[j := ?k]) ! n"
          by (auto simp: in_set_conv_nth)
        with all[of "ks ! n"] ne show "x \<noteq> Text []"
          by (cases "n = j") simp_all
      qed
      then have "filter (\<lambda>k. k \<noteq> Text []) (ks[j := ?k]) = ks[j := ?k]"
        by (simp add: filter_id_conv)
      with m Elem True show ?thesis by simp
    qed
  qed
qed

lemma cheerio_load_set_text_all:
  assumes "v \<noteq> []" "html_text v = v"
  shows "cheerio_load d = d \<Longrightarrow> cheerio_load (set_text_all ps v d) = set_text_all ps v d"
  by (induction ps arbitrary: d) (simp_all add: set_text_all_def cheerio_load_set_text_at assms)

section \<open>The routes on a registered file type\<close>

lemma loadHTMLFile_registered:
  assumes "map_of HTML_FILES ft = Some f"
  shows "loadHTMLFile st ft =
           (case files st f of
              None \<Rightarrow> Inl (JsReferenceError ''fileName is not defined'')
            | Some htmlContent \<Rightarrow> Inr (cheerio_load htmlContent))"
  using assms
  by (simp add: loadHTMLFile_def loadHTMLFile_try_def get_property_def readFile_def
      split: option.splits)

lemma saveHTMLFile_registered:
  assumes "map_of HTML_FILES ft = Some f" "f \<notin> unwritable st"
  shows "saveHTMLFile st d ft = Inr (st\<lparr>files := (files st)(f \<mapsto> d)\<rparr>)"
  using assms
  by (simp add: saveHTMLFile_def saveHTMLFile_try_def get_property_def writeFile_def)

lemma loaded_fixed: "loadHTMLFile st ft = Inr d \<Longrightarrow> cheerio_load d = d"
  by (auto simp: loadHTMLFile_def loadHTMLFile_try_def readFile_def cheerio_load_idem
      split: sum.splits property.splits option.splits)

lemma updateBalanceValues_snd:
  "snd (updateBalanceValues st d nb ''openbank'')
     = Inr (updateOpenbankValues d (otherBalances nb ''openbank''))"
  "snd (updateBalanceValues st d nb ''directDebits'')
     = Inr (updateDirectDebitsValues d (otherBalances nb ''directDebits''))"
  "snd (updateBalanceValues st d nb ''cards'')
     = Inr (updateCardsValues d (otherBalances nb ''cards''))"
  "snd (updateBalanceValues st d nb ''transfers'')
     = Inr (updateTransfersValues d (otherBalances nb ''transfers''))"
  using globalUpdates_Inr[of st nb "''openbank''"] globalUpdates_Inr[of st nb "''directDebits''"]
    globalUpdates_Inr[of st nb "''cards''"] globalUpdates_Inr[of st nb "''transfers''"]
  by (auto simp: updateBalanceValues_def Let_def)

text \<open>
  A request for a registered file type whose file can be read and written succeeds and
  saves the caller's document, updated by the rules of the file type.
\<close>

lemma post_registered:
  assumes "map_of HTML_FILES ft = Some f" "loadHTMLFile st ft = Inr d" "f \<notin> unwritable st"
    "snd (updateBalanceValues st d nb ft) = Inr d'"
  shows "\<exists>st'. postUpdateBalances st nb ft = (st', None) \<and> files st' f = Some d' \<and>
           unwritable st' = unwritable st \<and> loadHTMLFile st' ft = Inr (cheerio_load d')"
proof -
  from globalUpdates_unwritable[of st nb ft] obtain st1 where
    g: "globalUpdates st nb ft = Inr st1" "unwritable st1 = unwritable st" by blast
  with assms(4) have u: "updateBalanceValues st d nb ft = (st1, Inr d')"
    by (auto simp: updateBalanceValues_def Let_def split: if_splits)
  from g assms(1,3) have s: "saveHTMLFile st1 d' ft = Inr (st1\<lparr>files := (files st1)(f \<mapsto> d')\<rparr>)"
    by (simp add: saveHTMLFile_registered)
  from assms(2) u s g(2) show ?thesis
    by (simp add: postUpdateBalances_def loadHTMLFile_registered[OF assms(1)])
qed

lemma get_registered:
  assumes "ft \<noteq> []" "loadHTMLFile st ft = Inr d"
  shows "getCurrentBalances st ft = extractBalanceValues d ft"
  using assms by (simp add: getCurrentBalances_def)

lemma registered_files:
  "map_of HTML_FILES ''openbank'' = Some ''Openbank.html''"
  "map_of HTML_FILES ''directDebits'' = Some ''Openbank-direct-debits.html''"
  "map_of HTML_FILES ''cards'' = Some ''Openbank-cards.html''"
  "map_of HTML_FILES ''transfers'' = Some ''Openbank-transfers.html''"
  by (simp_all add: HTML_FILES_def)

section \<open>The targets of the card digits\<close>









text \<open>
  The route itself: it loads the requested document before the global update and saves
  that copy afterwards, over the file the global update has written. After a request for
  the main document the card digits are new in the transfers file and old in the main
  file.
\<close>

lemma requested_document_saved_over:
  "map (\<lambda>(f, sel). map_option (\<lambda>d. sel_text d (select sel d))
          (files (fst (postUpdateBalances sample_fs [''cardLastDigits'' \<mapsto> ''9999'']
                         ''openbank'')) f))
     [(''Openbank.html'', sel_card_title), (''Openbank-transfers.html'', sel_dropdown_iban)]
   = [Some ''...2150'', Some ''...9999'']"
  by code_simp

section \<open>The change of name\<close>











section \<open>Lists of writes\<close>

lemma apply_writes_Nil: "apply_writes [] d = d"
  by (simp add: apply_writes_def)

lemma apply_writes_Cons: "apply_writes ((p, v) # ws) d = apply_writes ws (set_text_at p v d)"
  by (simp add: apply_writes_def)







lemma apply_writes_fixed: "\<forall>(q, w)\<in>set ws. written d q w \<Longrightarrow> apply_writes ws d = d"
  by (induction ws) (auto simp: apply_writes_Cons apply_writes_Nil set_text_at_written)

lemma cheerio_load_apply_writes:
  assumes "\<forall>(q, w)\<in>set ws. w \<noteq> [] \<and> html_text w = w"
  shows "cheerio_load d = d \<Longrightarrow> cheerio_load (apply_writes ws d) = apply_writes ws d"
  using assms
  by (induction ws arbitrary: d) (auto simp: apply_writes_Cons apply_writes_Nil cheerio_load_set_text_at)



subsection \<open>What a first-match loop reads\<close>








subsection \<open>The steps of an update\<close>



section \<open>The update of the main document as a list of writes\<close>










section \<open>All matches, first match\<close>









end
